theory Spec2Isabelle
  imports Complex_Main
begin

section \<open>Data model (src/types.ts)\<close>

text \<open>
  The TypeScript type \<open>number\<close> is modelled by \<^typ>\<open>real\<close>. The metrics of a shape and the
  snapping of a click are computed over the reals, with the IEEE special values (NaN, the
  infinities) modelled only where the source tests for them (\<open>parseFloat\<close> yielding NaN, the
  initial \<open>Infinity\<close> of the snapping loop). The progress figures are computed in binary64
  arithmetic, rounding included.
  Timestamps are integers, lengths are natural numbers. An optional field \<open>f?: T\<close> is a
  \<open>T option\<close>, with \<open>None\<close> for \<open>undefined\<close>.

  Record fields are global names in Isabelle, so the fields of \<open>DailyProgress\<close> that clash
  with other names or with keywords (\<open>id\<close>, \<open>notes\<close>, \<open>customTileUrl\<close>) carry the
  prefix \<open>entry_\<close>, and the fields of \<open>Site\<close> the prefix \<open>site_\<close>; the state variables of
  the editor component keep the names of the source.
\<close>

record Point =
  lat :: real
  lng :: real

record SiteMetrics =
  perimeterMeters :: real
  vertexCount :: nat
  estimatedWalkTimeMinutes :: real

datatype Status = pending | approved | rejected

record DailyProgress =
  entry_id :: string
  date :: int
  metersCompleted :: real
  status :: Status
  entry_notes :: "string option"
  entry_customTileUrl :: "string option"

record Site =
  site_id :: string
  site_name :: string
  site_createdAt :: int
  site_points :: "Point list"
  site_metrics :: SiteMetrics
  site_isClosed :: "bool option"
  site_customTileUrl :: "string option"
  site_contractorCommitmentPerDay :: "real option"
  site_dailyProgress :: "DailyProgress list option"

section \<open>JavaScript built-ins used by the source\<close>

text \<open>\<open>Math.round\<close> rounds to the nearest integer, a tie going up.\<close>

definition Math_round :: "real \<Rightarrow> real" where
  "Math_round v = of_int \<lfloor>v + 1 / 2\<rfloor>"

section \<open>Metrics of a traced shape (src/components/MapCanvas.tsx, calculateMetrics)\<close>

text \<open>
  \<open>L.latLng(a).distanceTo(L.latLng(b))\<close> is Leaflet's great-circle distance in metres. Leaflet is
  a library outside this repository, so the distance is the parameter \<open>distanceTo\<close> of the model.
  The \<open>for\<close> loop of the source runs \<open>i\<close> from its start value up to \<open>limit\<close>, adding one
  segment per round to the running total \<open>perimeter\<close>.
\<close>

function perimeter_loop ::
  "(Point \<Rightarrow> Point \<Rightarrow> real) \<Rightarrow> Point list \<Rightarrow> nat \<Rightarrow> nat \<Rightarrow> real \<Rightarrow> real" where
  "perimeter_loop distanceTo pts limit i perimeter =
     (if i < limit
      then perimeter_loop distanceTo pts limit (i + 1)
             (perimeter + distanceTo (pts ! i) (pts ! ((i + 1) mod length pts)))
      else perimeter)"
  by pat_completeness auto
termination
  by (relation "measure (\<lambda>(distanceTo, pts, limit, i, perimeter). limit - i)") auto

declare perimeter_loop.simps [simp del]

definition calculateMetrics ::
  "(Point \<Rightarrow> Point \<Rightarrow> real) \<Rightarrow> Point list \<Rightarrow> bool \<Rightarrow> SiteMetrics" where
  "calculateMetrics distanceTo pts isClosed =
     (if length pts < 2
      then \<lparr>perimeterMeters = 0, vertexCount = length pts, estimatedWalkTimeMinutes = 0\<rparr>
      else
        let limit = (if isClosed then length pts else length pts - 1);
            perimeter = perimeter_loop distanceTo pts limit 0 0;
            walkTime = perimeter / 83.33
        in \<lparr>perimeterMeters = Math_round (perimeter * 100) / 100,
            vertexCount = length pts,
            estimatedWalkTimeMinutes = Math_round (walkTime * 10) / 10\<rparr>)"

section \<open>Snapping a click to an existing vertex (src/components/MapCanvas.tsx, MapEvents)\<close>

text \<open>
  The click handler projects the click and every existing vertex to container pixels with
  Leaflet's \<open>map.latLngToContainerPoint\<close> and compares pixel distances with Leaflet's
  \<open>Point.distanceTo\<close>; both belong to the map library and are parameters of the model, the
  type \<open>'s\<close> standing for Leaflet's pixel points. The variable \<open>closestDist\<close> starts at
  \<open>Infinity\<close>, modelled by \<open>None\<close>; \<open>snapTarget\<close> starts at \<open>null\<close>, also \<open>None\<close>.
\<close>

definition less_closestDist :: "real \<Rightarrow> real option \<Rightarrow> bool" where
  "less_closestDist d closestDist =
     (case closestDist of None \<Rightarrow> True | Some c \<Rightarrow> d < c)"

text \<open>
  The loop \<open>for (const p of points)\<close>; \<open>d\<close> is the source's \<open>dist\<close>. The source compares with the local constant
  \<open>SNAP_THRESHOLD_PIXELS\<close>; the loop takes the threshold as an argument and the handler
  passes the constant.
\<close>

fun snap_loop ::
  "(Point \<Rightarrow> 's) \<Rightarrow> ('s \<Rightarrow> 's \<Rightarrow> real) \<Rightarrow> real \<Rightarrow> 's \<Rightarrow> Point list
     \<Rightarrow> real option \<times> Point option \<Rightarrow> real option \<times> Point option" where
  "snap_loop latLngToContainerPoint distanceTo threshold clickPoint [] acc = acc"
| "snap_loop latLngToContainerPoint distanceTo threshold clickPoint (p # ps) (closestDist, snapTarget) =
     (let pContainer = latLngToContainerPoint p;
          d = distanceTo clickPoint pContainer
      in if less_closestDist d closestDist \<and> d \<le> threshold
         then snap_loop latLngToContainerPoint distanceTo threshold clickPoint ps (Some d, Some p)
         else snap_loop latLngToContainerPoint distanceTo threshold clickPoint ps (closestDist, snapTarget))"

definition SNAP_THRESHOLD_PIXELS :: real where
  "SNAP_THRESHOLD_PIXELS = 15"

text \<open>
  The coordinates \<open>{lat: newLat, lng: newLng}\<close> that the handler appends for a click at
  \<open>latlng\<close>: those of the snap target when the loop found one, those of the click otherwise.
\<close>

definition snapResolve ::
  "(Point \<Rightarrow> 's) \<Rightarrow> ('s \<Rightarrow> 's \<Rightarrow> real) \<Rightarrow> real \<Rightarrow> bool \<Rightarrow> Point list \<Rightarrow> Point \<Rightarrow> Point" where
  "snapResolve latLngToContainerPoint distanceTo threshold snap pts latlng =
     (if snap \<and> length pts > 0
      then
        (case snd (snap_loop latLngToContainerPoint distanceTo threshold
                     (latLngToContainerPoint latlng) pts (None, None)) of
           Some snapTarget \<Rightarrow> \<lparr>lat = lat snapTarget, lng = lng snapTarget\<rparr>
         | None \<Rightarrow> \<lparr>lat = lat latlng, lng = lng latlng\<rparr>)
      else \<lparr>lat = lat latlng, lng = lng latlng\<rparr>)"

section \<open>Progress figures (src/components/SiteEditor.tsx, lines 40 to 42)\<close>

text \<open>
  The three figures are rounded to whole numbers, so the rounding of each arithmetic step
  decides their value: \<open>(23 / 40) * 100\<close> is 57.49999999999999 in the code and rounds to 57.
  They are therefore computed in the arithmetic of the source, IEEE 754 binary64 with
  rounding to nearest, ties to even.

  \<open>rne\<close> rounds a real to the nearest integer, a tie going to the even one. \<open>expo\<close> is the
  binary exponent of a value, held between -1022 (below which the subnormal numbers share
  one spacing) and 1023. \<open>round64\<close> rounds to the nearest multiple of the spacing
  \<open>2 powi (expo v - 52)\<close>, and \<open>fl\<close> turns a result of magnitude \<open>2 powi 1024\<close> or more into an
  infinity. The sign of a zero is not modelled: the figures are compared and displayed only,
  and the guards of the source exclude a zero divisor.
\<close>

datatype jsnum = Num real | PosInf | NegInf | NaN

definition rne :: "real \<Rightarrow> int" where
  "rne y =
     (let f = \<lfloor>y\<rfloor>; r = y - of_int f
      in if r < 1 / 2 then f else if 1 / 2 < r then f + 1 else if even f then f else f + 1)"

definition expo :: "real \<Rightarrow> int" where
  "expo v = Max (insert (- 1022) (Set.filter (\<lambda>e. 2 powi e \<le> \<bar>v\<bar>) {- 1022..1023}))"

definition round64 :: "real \<Rightarrow> real" where
  "round64 v = of_int (rne (v / 2 powi (expo v - 52))) * 2 powi (expo v - 52)"

definition fl :: "real \<Rightarrow> jsnum" where
  "fl v =
     (let r = round64 v
      in if 2 powi 1024 \<le> \<bar>r\<bar> then (if 0 < v then PosInf else NegInf) else Num r)"

text \<open>A real that is a binary64 value, and a number that JavaScript can hold.\<close>

definition is_double :: "real \<Rightarrow> bool" where
  "is_double v = (fl v = Num v)"

fun js_valid :: "jsnum \<Rightarrow> bool" where
  "js_valid (Num a) = is_double a"
| "js_valid _ = True"

text \<open>
  The operators \<open>+\<close>, \<open>-\<close>, \<open>*\<close>, \<open>/\<close> and \<open>>\<close> of the source and \<open>Math.min\<close>, \<open>Math.max\<close>,
  \<open>Math.round\<close>, \<open>Math.ceil\<close>, on finite numbers, the two infinities and NaN. \<open>Math.round\<close> and
  \<open>Math.ceil\<close> of a finite binary64 value are exact.
\<close>

fun js_neg :: "jsnum \<Rightarrow> jsnum" where
  "js_neg (Num a) = Num (- a)"
| "js_neg PosInf = NegInf"
| "js_neg NegInf = PosInf"
| "js_neg NaN = NaN"

fun js_sign :: "jsnum \<Rightarrow> int" where
  "js_sign (Num a) = (if 0 < a then 1 else if a < 0 then - 1 else 0)"
| "js_sign PosInf = 1"
| "js_sign NegInf = - 1"
| "js_sign NaN = 0"

definition signed_inf :: "int \<Rightarrow> jsnum" where
  "signed_inf s = (if 0 < s then PosInf else if s < 0 then NegInf else NaN)"

fun js_add :: "jsnum \<Rightarrow> jsnum \<Rightarrow> jsnum" where
  "js_add (Num a) (Num b) = fl (a + b)"
| "js_add NaN _ = NaN"
| "js_add _ NaN = NaN"
| "js_add PosInf NegInf = NaN"
| "js_add NegInf PosInf = NaN"
| "js_add PosInf _ = PosInf"
| "js_add NegInf _ = NegInf"
| "js_add _ PosInf = PosInf"
| "js_add _ NegInf = NegInf"

definition js_sub :: "jsnum \<Rightarrow> jsnum \<Rightarrow> jsnum" where
  "js_sub a b = js_add a (js_neg b)"

fun js_mul :: "jsnum \<Rightarrow> jsnum \<Rightarrow> jsnum" where
  "js_mul (Num a) (Num b) = fl (a * b)"
| "js_mul NaN _ = NaN"
| "js_mul _ NaN = NaN"
| "js_mul a b = signed_inf (js_sign a * js_sign b)"

fun js_div :: "jsnum \<Rightarrow> jsnum \<Rightarrow> jsnum" where
  "js_div NaN _ = NaN"
| "js_div _ NaN = NaN"
| "js_div (Num a) (Num b) = (if b = 0 then signed_inf (js_sign (Num a)) else fl (a / b))"
| "js_div (Num a) b = Num 0"
| "js_div a (Num b) = signed_inf (js_sign a * (if b < 0 then - 1 else 1))"
| "js_div a b = NaN"

fun js_gt :: "jsnum \<Rightarrow> jsnum \<Rightarrow> bool" where
  "js_gt (Num a) (Num b) = (a > b)"
| "js_gt NaN _ = False"
| "js_gt _ NaN = False"
| "js_gt PosInf b = (b \<noteq> PosInf)"
| "js_gt a NegInf = (a \<noteq> NegInf)"
| "js_gt _ _ = False"

definition Math_min :: "jsnum \<Rightarrow> jsnum \<Rightarrow> jsnum" where
  "Math_min a b = (if a = NaN \<or> b = NaN then NaN else if js_gt a b then b else a)"

definition Math_max :: "jsnum \<Rightarrow> jsnum \<Rightarrow> jsnum" where
  "Math_max a b = (if a = NaN \<or> b = NaN then NaN else if js_gt b a then b else a)"

fun Math_round_num :: "jsnum \<Rightarrow> jsnum" where
  "Math_round_num (Num a) = Num (of_int \<lfloor>a + 1 / 2\<rfloor>)"
| "Math_round_num a = a"

fun Math_ceil_num :: "jsnum \<Rightarrow> jsnum" where
  "Math_ceil_num (Num a) = Num (of_int \<lceil>a\<rceil>)"
| "Math_ceil_num a = a"

text \<open>
  The three figures. A number read from a field or passed in (\<open>metersCompleted\<close>, the
  perimeter, the commitment rate) is read through \<open>fl\<close>: a binary64 value reads as itself,
  and a decimal such as 0.1 as the binary64 value nearest to it, which is how JavaScript
  reads that numeral. The literals 0 and 100 of the source are binary64 values.
\<close>

definition totalCompleted :: "DailyProgress list \<Rightarrow> jsnum" where
  "totalCompleted ledger =
     foldl (\<lambda>sum p. js_add sum (if status p = approved then fl (metersCompleted p) else Num 0))
       (Num 0) ledger"

definition progressPercentage :: "real \<Rightarrow> DailyProgress list \<Rightarrow> jsnum" where
  "progressPercentage perimeter ledger =
     (if js_gt (fl perimeter) (Num 0)
      then Math_min (Num 100)
             (Math_round_num (js_mul (js_div (totalCompleted ledger) (fl perimeter)) (Num 100)))
      else Num 0)"

definition daysRemaining :: "real \<Rightarrow> real \<Rightarrow> DailyProgress list \<Rightarrow> jsnum" where
  "daysRemaining commitment perimeter ledger =
     (if js_gt (fl commitment) (Num 0)
      then Math_ceil_num
             (js_div (Math_max (Num 0) (js_sub (fl perimeter) (totalCompleted ledger)))
                (fl commitment))
      else Num 0)"

section \<open>The editing session (src/components/SiteEditor.tsx)\<close>

text \<open>
  The state of the component: one field per \<open>useState\<close> variable that the drawing and
  progress handlers read or write. The variables of the search box and of the panels
  (\<open>searchQuery\<close>, \<open>searchResults\<close>, \<open>mapCenter\<close>, \<open>isSearching\<close>, \<open>showCustomTiles\<close>,
  \<open>showTileSettings\<close>, \<open>showProgressPanel\<close>) are read by no handler below and are left out.
\<close>

record Editor =
  points :: "Point list"
  isDrawing :: bool
  isFinished :: bool
  isClosed :: bool
  snapToPoints :: bool
  customTileUrl :: string
  contractorCommitment :: real
  dailyProgress :: "DailyProgress list"
  newProgressMeters :: string
  newProgressNotes :: string

text \<open>
  JavaScript's \<open>a || b\<close> yields \<open>b\<close> when \<open>a\<close> is falsy: \<open>undefined\<close> and the empty string for
  a string, \<open>undefined\<close> and \<open>0\<close> for a number, \<open>undefined\<close> alone for an array. \<open>a ?? b\<close> yields
  \<open>b\<close> only when \<open>a\<close> is \<open>undefined\<close>.
\<close>

definition or_string :: "string option \<Rightarrow> string \<Rightarrow> string" where
  "or_string a b = (case a of None \<Rightarrow> b | Some u \<Rightarrow> if u = [] then b else u)"

definition or_number :: "real option \<Rightarrow> real \<Rightarrow> real" where
  "or_number a b = (case a of None \<Rightarrow> b | Some r \<Rightarrow> if r = 0 then b else r)"

definition or_array :: "'a list option \<Rightarrow> 'a list \<Rightarrow> 'a list" where
  "or_array a b = (case a of None \<Rightarrow> b | Some l \<Rightarrow> l)"

definition nullish :: "'a option \<Rightarrow> 'a \<Rightarrow> 'a" where
  "nullish a b = (case a of None \<Rightarrow> b | Some v \<Rightarrow> v)"

text \<open>The initial values of the state variables when the editor opens \<open>site\<close>.\<close>

definition SiteEditor :: "Site \<Rightarrow> Editor" where
  "SiteEditor site =
     \<lparr>points = site_points site,
      isDrawing = (length (site_points site) = 0),
      isFinished = (length (site_points site) > 1),
      isClosed = nullish (site_isClosed site) True,
      snapToPoints = True,
      customTileUrl = or_string (site_customTileUrl site) [],
      contractorCommitment = or_number (site_contractorCommitmentPerDay site) 100,
      dailyProgress = or_array (site_dailyProgress site) [],
      newProgressMeters = [],
      newProgressNotes = []\<rparr>"

text \<open>\<open>points.slice(0, -1)\<close>: all elements but the last.\<close>

definition handleUndo :: "Editor \<Rightarrow> Editor" where
  "handleUndo st =
     (if length (points st) > 0
      then st\<lparr>points := take (length (points st) - 1) (points st),
              isFinished := False,
              isDrawing := True\<rparr>
      else st)"

definition handleClear :: "Editor \<Rightarrow> Editor" where
  "handleClear st = st\<lparr>points := [], isFinished := False, isDrawing := True\<rparr>"

definition handleFinish :: "Editor \<Rightarrow> Editor" where
  "handleFinish st =
     (if length (points st) > 1 then st\<lparr>isFinished := True, isDrawing := False\<rparr> else st)"

text \<open>
  The Undo button carries \<open>disabled={points.length === 0 || isFinished}\<close>; a disabled button
  does not run its \<open>onClick\<close>.
\<close>

definition undoDisabled :: "Editor \<Rightarrow> bool" where
  "undoDisabled st = (length (points st) = 0 \<or> isFinished st)"

definition undoButton :: "Editor \<Rightarrow> Editor" where
  "undoButton st = (if undoDisabled st then st else handleUndo st)"

text \<open>A click on the map (\<open>MapEvents\<close>), with \<open>onPointsChange = setPoints\<close>.\<close>

definition mapClick ::
  "(Point \<Rightarrow> 's) \<Rightarrow> ('s \<Rightarrow> 's \<Rightarrow> real) \<Rightarrow> Point \<Rightarrow> Editor \<Rightarrow> Editor" where
  "mapClick latLngToContainerPoint distanceTo latlng st =
     (if isDrawing st \<and> \<not> isFinished st
      then st\<lparr>points := points st @
                [snapResolve latLngToContainerPoint distanceTo SNAP_THRESHOLD_PIXELS
                   (snapToPoints st) (points st) latlng]\<rparr>
      else st)"

text \<open>
  \<open>handleSave\<close> passes to \<open>onSave\<close> the site it was opened with, the drawing and progress
  fields overwritten from the state; the model returns that value.
\<close>

definition handleSave :: "(Point \<Rightarrow> Point \<Rightarrow> real) \<Rightarrow> Site \<Rightarrow> Editor \<Rightarrow> Site" where
  "handleSave distanceTo site st =
     site\<lparr>site_points := points st,
          site_metrics := calculateMetrics distanceTo (points st) (isClosed st),
          site_isClosed := Some (isClosed st),
          site_customTileUrl := (if customTileUrl st = [] then None else Some (customTileUrl st)),
          site_contractorCommitmentPerDay := Some (contractorCommitment st),
          site_dailyProgress := Some (dailyProgress st)\<rparr>"

text \<open>
  \<open>handleAddProgress\<close> reads the amount with \<open>parseFloat\<close> (a parameter; \<open>None\<close> is NaN), the new
  id from \<open>uuidv4()\<close> and the date from \<open>Date.now()\<close>. The guard's early \<open>return\<close>, before any
  state variable is set, is the result \<open>None\<close>; \<open>afterAddProgress\<close> is the state the component
  is left in.
\<close>

definition handleAddProgress ::
  "(string \<Rightarrow> real option) \<Rightarrow> string \<Rightarrow> int \<Rightarrow> Editor \<Rightarrow> Editor option" where
  "handleAddProgress parseFloat uuid now st =
     (case parseFloat (newProgressMeters st) of
        None \<Rightarrow> None
      | Some meters \<Rightarrow>
          if meters \<le> 0 then None
          else
            let newProgress =
                  \<lparr>entry_id = uuid, date = now, metersCompleted = meters, status = pending,
                   entry_notes = Some (newProgressNotes st), entry_customTileUrl = None\<rparr>
            in Some (st\<lparr>dailyProgress := dailyProgress st @ [newProgress],
                        newProgressMeters := [],
                        newProgressNotes := []\<rparr>))"

definition afterAddProgress ::
  "(string \<Rightarrow> real option) \<Rightarrow> string \<Rightarrow> int \<Rightarrow> Editor \<Rightarrow> Editor" where
  "afterAddProgress parseFloat uuid now st =
     (case handleAddProgress parseFloat uuid now st of None \<Rightarrow> st | Some st' \<Rightarrow> st')"

text \<open>
  \<open>handleUpdateProgressStatus\<close> maps over the ledger. The history panel renders the Approve
  and Reject buttons of an entry only under \<open>p.status === 'pending'\<close>.
\<close>

definition handleUpdateProgressStatus :: "string \<Rightarrow> Status \<Rightarrow> Editor \<Rightarrow> Editor" where
  "handleUpdateProgressStatus i s st =
     st\<lparr>dailyProgress :=
          map (\<lambda>p. if entry_id p = i then p\<lparr>status := s\<rparr> else p) (dailyProgress st)\<rparr>"

definition reviewButtonsShown :: "DailyProgress \<Rightarrow> bool" where
  "reviewButtonsShown p = (status p = pending)"

section \<open>Properties of calculateMetrics\<close>

text \<open>The loop adds the segments from \<open>i\<close> up to \<open>limit\<close> to the running total.\<close>

lemma perimeter_loop_sum:
  "perimeter_loop d ps limit i acc =
     acc + (\<Sum>k = i..<limit. d (ps ! k) (ps ! ((k + 1) mod length ps)))"
proof (induction d ps limit i acc rule: perimeter_loop.induct)
  case (1 d ps limit i acc)
  show ?case
  proof (cases "i < limit")
    case True
    then show ?thesis
      using "1.IH" [OF True]
      by (subst perimeter_loop.simps) (simp add: sum.atLeast_Suc_lessThan)
  next
    case False
    then show ?thesis
      by (subst perimeter_loop.simps) simp
  qed
qed

text \<open>
  Every index the loop reads lies inside the vertex list, so no read of the source yields
  \<open>undefined\<close>.
\<close>

lemma perimeter_loop_indices_in_range:
  "2 \<le> length pts \<Longrightarrow> i < (if c then length pts else length pts - 1) \<Longrightarrow>
     i < length pts \<and> (i + 1) mod length pts < length pts"
proof -
  assume len: "2 \<le> length pts" and i: "i < (if c then length pts else length pts - 1)"
  from len have "0 < length pts" by linarith
  then have "(i + 1) mod length pts < length pts" by (rule mod_less_divisor)
  moreover from i have "i < length pts" by (simp split: if_splits)
  ultimately show ?thesis by simp
qed












text \<open>
  C10. For every vertex list and both values of the closure flag, the \<open>vertexCount\<close> of the
  metrics that \<open>calculateMetrics\<close> returns is the length of the vertex list: in the branch
  for fewer than two vertices and in the general branch alike. Vertices are counted by
  position, so a vertex repeated by snapping counts each time.
\<close>

theorem calculateMetrics_vertexCount:
  "vertexCount (calculateMetrics distanceTo pts c) = length pts"
  by (simp add: calculateMetrics_def Let_def)

section \<open>Properties of snapping\<close>

text \<open>Running the loop over a list extended by one vertex is one more round of it.\<close>

lemma snap_loop_snoc:
  "snap_loop proj sd thr cp (ps @ [p]) acc = snap_loop proj sd thr cp [p] (snap_loop proj sd thr cp ps acc)"
proof (induction ps arbitrary: acc)
  case Nil
  show ?case by simp
next
  case (Cons q ps)
  show ?case by (cases acc) (simp add: Let_def Cons.IH)
qed

text \<open>
  The loop invariant: after any prefix of the vertices, either nothing is selected and
  every vertex seen lies beyond the threshold, or the selected vertex is within the
  threshold, no vertex seen is closer, and every earlier vertex is strictly farther.
\<close>

lemma snap_loop_inv:
  "snap_loop proj sd thr cp ps (None, None) = (c, t) \<Longrightarrow>
   (c = None \<and> t = None \<and> (\<forall>j<length ps. thr < sd cp (proj (ps ! j)))) \<or>
   (\<exists>k<length ps. c = Some (sd cp (proj (ps ! k))) \<and> t = Some (ps ! k) \<and>
       sd cp (proj (ps ! k)) \<le> thr \<and>
       (\<forall>j<length ps. sd cp (proj (ps ! k)) \<le> sd cp (proj (ps ! j))) \<and>
       (\<forall>j<k. sd cp (proj (ps ! k)) < sd cp (proj (ps ! j))))"
proof (induction ps arbitrary: c t rule: rev_induct)
  case Nil
  then show ?case by simp
next
  case (snoc p ps)
  obtain c0 t0 where prev: "snap_loop proj sd thr cp ps (None, None) = (c0, t0)"
    by (cases "snap_loop proj sd thr cp ps (None, None)") auto
  let ?D = "\<lambda>v. sd cp (proj v)"
  have step: "(c, t) = (if less_closestDist (?D p) c0 \<and> ?D p \<le> thr then (Some (?D p), Some p) else (c0, t0))"
    using snoc.prems by (auto simp add: snap_loop_snoc prev Let_def split: if_splits)
  from snoc.IH [OF prev] show ?case
  proof (elim disjE conjE exE)
    assume none: "c0 = None" "t0 = None" and far: "\<forall>j<length ps. thr < ?D (ps ! j)"
    show ?thesis
    proof (cases "?D p \<le> thr")
      case True
      then have ct: "c = Some (?D p)" "t = Some p"
        using step none by (simp_all add: less_closestDist_def)
      have "\<forall>j<length ps. ?D p < ?D (ps ! j)"
        using far True by fastforce
      then have "length ps < length (ps @ [p]) \<and> c = Some (?D ((ps @ [p]) ! length ps)) \<and>
          t = Some ((ps @ [p]) ! length ps) \<and> ?D ((ps @ [p]) ! length ps) \<le> thr \<and>
          (\<forall>j<length (ps @ [p]). ?D ((ps @ [p]) ! length ps) \<le> ?D ((ps @ [p]) ! j)) \<and>
          (\<forall>j<length ps. ?D ((ps @ [p]) ! length ps) < ?D ((ps @ [p]) ! j))"
        using ct True by (auto simp: nth_append less_Suc_eq)
      then show ?thesis by blast
    next
      case False
      then have "c = None" "t = None"
        using step none by simp_all
      moreover have "\<forall>j<length (ps @ [p]). thr < ?D ((ps @ [p]) ! j)"
        using far False by (auto simp: nth_append less_Suc_eq)
      ultimately show ?thesis by blast
    qed
  next
    fix k
    assume k: "k < length ps" and c0: "c0 = Some (?D (ps ! k))" and t0: "t0 = Some (ps ! k)"
      and within: "?D (ps ! k) \<le> thr"
      and least: "\<forall>j<length ps. ?D (ps ! k) \<le> ?D (ps ! j)"
      and first: "\<forall>j<k. ?D (ps ! k) < ?D (ps ! j)"
    show ?thesis
    proof (cases "?D p < ?D (ps ! k) \<and> ?D p \<le> thr")
      case True
      then have ct: "c = Some (?D p)" "t = Some p"
        using step c0 by (simp_all add: less_closestDist_def)
      have "\<forall>j<length ps. ?D p < ?D (ps ! j)"
        using least True by fastforce
      then have "length ps < length (ps @ [p]) \<and> c = Some (?D ((ps @ [p]) ! length ps)) \<and>
          t = Some ((ps @ [p]) ! length ps) \<and> ?D ((ps @ [p]) ! length ps) \<le> thr \<and>
          (\<forall>j<length (ps @ [p]). ?D ((ps @ [p]) ! length ps) \<le> ?D ((ps @ [p]) ! j)) \<and>
          (\<forall>j<length ps. ?D ((ps @ [p]) ! length ps) < ?D ((ps @ [p]) ! j))"
        using ct True by (auto simp: nth_append less_Suc_eq)
      then show ?thesis by blast
    next
      case False
      then have ct: "c = Some (?D (ps ! k))" "t = Some (ps ! k)"
        using step c0 t0 by (auto simp: less_closestDist_def)
      have "?D (ps ! k) \<le> ?D p"
        using False within by linarith
      then have "k < length (ps @ [p]) \<and> c = Some (?D ((ps @ [p]) ! k)) \<and>
          t = Some ((ps @ [p]) ! k) \<and> ?D ((ps @ [p]) ! k) \<le> thr \<and>
          (\<forall>j<length (ps @ [p]). ?D ((ps @ [p]) ! k) \<le> ?D ((ps @ [p]) ! j)) \<and>
          (\<forall>j<k. ?D ((ps @ [p]) ! k) < ?D ((ps @ [p]) ! j))"
        using ct k within least first by (auto simp: nth_append less_Suc_eq)
      then show ?thesis by blast
    qed
  qed
qed

text \<open>
  C7. When snapping is on and some existing vertex lies within the threshold of the click in
  container pixels, the resolved point is the existing vertex closest to the click, the
  first one in list order when several are equally close. When snapping is off, there is no
  vertex, or every vertex lies beyond the threshold, the resolved point is the click itself.
  In both cases the result is a point value of its own (\<open>{lat: newLat, lng: newLng}\<close>).
\<close>

theorem snapResolve_closest_or_unchanged:
  "(snap \<and> (\<exists>v\<in>set pts. sd (proj latlng) (proj v) \<le> thr) \<longrightarrow>
      (\<exists>k<length pts.
          snapResolve proj sd thr snap pts latlng = pts ! k \<and>
          sd (proj latlng) (proj (pts ! k)) \<le> thr \<and>
          (\<forall>j<length pts. sd (proj latlng) (proj (pts ! k)) \<le> sd (proj latlng) (proj (pts ! j))) \<and>
          (\<forall>j<k. sd (proj latlng) (proj (pts ! k)) < sd (proj latlng) (proj (pts ! j))))) \<and>
   (\<not> snap \<or> pts = [] \<or> (\<forall>v\<in>set pts. thr < sd (proj latlng) (proj v)) \<longrightarrow>
      snapResolve proj sd thr snap pts latlng = latlng)"
proof -
  obtain c t where loop: "snap_loop proj sd thr (proj latlng) pts (None, None) = (c, t)"
    by (cases "snap_loop proj sd thr (proj latlng) pts (None, None)") auto
  note inv = snap_loop_inv [OF loop]
  have near: "\<exists>k<length pts.
          snapResolve proj sd thr snap pts latlng = pts ! k \<and>
          sd (proj latlng) (proj (pts ! k)) \<le> thr \<and>
          (\<forall>j<length pts. sd (proj latlng) (proj (pts ! k)) \<le> sd (proj latlng) (proj (pts ! j))) \<and>
          (\<forall>j<k. sd (proj latlng) (proj (pts ! k)) < sd (proj latlng) (proj (pts ! j)))"
    if snap: snap and some: "\<exists>v\<in>set pts. sd (proj latlng) (proj v) \<le> thr"
  proof -
    from some obtain i where i: "i < length pts" "sd (proj latlng) (proj (pts ! i)) \<le> thr"
      by (auto simp: in_set_conv_nth)
    then have "\<not> (\<forall>j<length pts. thr < sd (proj latlng) (proj (pts ! j)))"
      by (auto simp: not_less)
    with inv obtain k where k: "k < length pts" "t = Some (pts ! k)"
        "sd (proj latlng) (proj (pts ! k)) \<le> thr"
        "\<forall>j<length pts. sd (proj latlng) (proj (pts ! k)) \<le> sd (proj latlng) (proj (pts ! j))"
        "\<forall>j<k. sd (proj latlng) (proj (pts ! k)) < sd (proj latlng) (proj (pts ! j))"
      by blast
    have "snapResolve proj sd thr snap pts latlng = pts ! k"
      using snap i(1) k(2) by (auto simp: snapResolve_def loop)
    with k show ?thesis by blast
  qed
  have far: "snapResolve proj sd thr snap pts latlng = latlng"
    if "\<not> snap \<or> pts = [] \<or> (\<forall>v\<in>set pts. thr < sd (proj latlng) (proj v))"
  proof (cases "snap \<and> pts \<noteq> []")
    case False
    then show ?thesis by (auto simp: snapResolve_def)
  next
    case True
    with that have all: "\<forall>v\<in>set pts. thr < sd (proj latlng) (proj v)" by blast
    have "t = None"
    proof (rule ccontr)
      assume "t \<noteq> None"
      with inv obtain k where "k < length pts" "sd (proj latlng) (proj (pts ! k)) \<le> thr"
        by auto
      with all show False by (auto simp: not_le [symmetric] dest: nth_mem)
    qed
    then show ?thesis by (simp add: snapResolve_def loop)
  qed
  from near far show ?thesis by blast
qed

text \<open>
  A click midway between two vertices snaps to the first of them; a click 38 pixels from
  the nearer vertex stays where it is.
\<close>

theorem snapResolve_closest_or_unchanged_witness:
  "(\<exists>v\<in>set [\<lparr>lat = 0, lng = 0\<rparr>, \<lparr>lat = 2, lng = 0\<rparr>].
       \<bar>lat \<lparr>lat = 1, lng = 0\<rparr> - lat v\<bar> + \<bar>lng \<lparr>lat = 1, lng = 0\<rparr> - lng v\<bar> \<le> (15 :: real)) \<and>
   snapResolve (\<lambda>p. p) (\<lambda>a b. \<bar>lat a - lat b\<bar> + \<bar>lng a - lng b\<bar>) 15 True
      [\<lparr>lat = 0, lng = 0\<rparr>, \<lparr>lat = 2, lng = 0\<rparr>] \<lparr>lat = 1, lng = 0\<rparr> = \<lparr>lat = 0, lng = 0\<rparr> \<and>
   (15 :: real) < \<bar>lat \<lparr>lat = 40, lng = 0\<rparr> - lat \<lparr>lat = 0, lng = 0\<rparr>\<bar>
                    + \<bar>lng \<lparr>lat = 40, lng = 0\<rparr> - lng \<lparr>lat = 0, lng = 0\<rparr>\<bar> \<and>
   (15 :: real) < \<bar>lat \<lparr>lat = 40, lng = 0\<rparr> - lat \<lparr>lat = 2, lng = 0\<rparr>\<bar>
                    + \<bar>lng \<lparr>lat = 40, lng = 0\<rparr> - lng \<lparr>lat = 2, lng = 0\<rparr>\<bar> \<and>
   snapResolve (\<lambda>p. p) (\<lambda>a b. \<bar>lat a - lat b\<bar> + \<bar>lng a - lng b\<bar>) 15 True
      [\<lparr>lat = 0, lng = 0\<rparr>, \<lparr>lat = 2, lng = 0\<rparr>] \<lparr>lat = 40, lng = 0\<rparr> = \<lparr>lat = 40, lng = 0\<rparr>"
  using snapResolve_closest_or_unchanged [of True "[\<lparr>lat = 0, lng = 0\<rparr>, \<lparr>lat = 2, lng = 0\<rparr>]"
      "\<lambda>a b. \<bar>lat a - lat b\<bar> + \<bar>lng a - lng b\<bar>" "\<lambda>p. p" "\<lparr>lat = 1, lng = 0\<rparr>" 15]
    snapResolve_closest_or_unchanged [of True "[\<lparr>lat = 0, lng = 0\<rparr>, \<lparr>lat = 2, lng = 0\<rparr>]"
      "\<lambda>a b. \<bar>lat a - lat b\<bar> + \<bar>lng a - lng b\<bar>" "\<lambda>p. p" "\<lparr>lat = 40, lng = 0\<rparr>" 15]
  by (auto simp: less_Suc_eq)

section \<open>Properties of binary64 rounding\<close>

text \<open>Powers of two are ordered as their exponents; the spacing \<open>2 powi (e - 52)\<close>.\<close>

lemma pow2_less: "a < b \<Longrightarrow> (2::real) powi a < 2 powi b"
  by (rule power_int_strict_increasing) simp_all

lemma pow2_le: "a \<le> b \<Longrightarrow> (2::real) powi a \<le> 2 powi b"
  by (rule power_int_increasing) simp_all

lemma pow2_less_D: "(2::real) powi a < 2 powi b \<Longrightarrow> a < b"
proof (rule ccontr)
  assume lt: "(2::real) powi a < 2 powi b" and "\<not> a < b"
  then have "(2::real) powi b \<le> 2 powi a" by (intro pow2_le) simp
  with lt show False by simp
qed

lemma ulp_52: "(2::real) ^ 52 * 2 powi (e - 52) = 2 powi e"
proof -
  have "(2::real) powi (52 + (e - 52)) = 2 powi 52 * 2 powi (e - 52)"
    by (rule power_int_add) simp
  then show ?thesis by simp
qed

lemma ulp_53: "(2::real) ^ 53 * 2 powi (e - 52) = 2 powi (e + 1)"
proof -
  have "(2::real) powi (53 + (e - 52)) = 2 powi 53 * 2 powi (e - 52)"
    by (rule power_int_add) simp
  then show ?thesis by (simp add: add.commute)
qed

lemma ulp_double: "2 * (2::real) powi (e - 52) = 2 powi (e + 1 - 52)"
proof -
  have "(2::real) powi (1 + (e - 52)) = 2 powi 1 * 2 powi (e - 52)"
    by (rule power_int_add) simp
  then show ?thesis by (simp add: algebra_simps)
qed

text \<open>
  The exponent lies between -1022 and 1023, and is the only one in that range whose
  binade holds the value.
\<close>

lemma expo_set_finite:
  "finite (insert (- 1022) (Set.filter (\<lambda>e. (2::real) powi e \<le> \<bar>v\<bar>) {- 1022..1023}))"
  by (rule finite.insertI, rule finite_subset [of _ "{- 1022..1023}"]) auto

lemma expo_in:
  "expo v \<in> insert (- 1022) (Set.filter (\<lambda>e. (2::real) powi e \<le> \<bar>v\<bar>) {- 1022..1023})"
  unfolding expo_def by (rule Max_in [OF expo_set_finite]) simp

lemma expo_range: "- 1022 \<le> expo v \<and> expo v \<le> 1023"
  using expo_in [of v] by auto

lemma expo_ge: "- 1022 \<le> e \<Longrightarrow> e \<le> 1023 \<Longrightarrow> 2 powi e \<le> \<bar>v\<bar> \<Longrightarrow> e \<le> expo v"
  unfolding expo_def by (rule Max_ge [OF expo_set_finite]) simp

lemma expo_le_pow: "2 powi (- 1022) \<le> \<bar>v\<bar> \<Longrightarrow> 2 powi (expo v) \<le> \<bar>v\<bar>"
  using expo_in [of v] by auto

lemma expo_lt_pow: "\<bar>v\<bar> < 2 powi 1024 \<Longrightarrow> \<bar>v\<bar> < 2 powi (expo v + 1)"
proof (rule ccontr)
  assume small: "\<bar>v\<bar> < 2 powi 1024" and "\<not> \<bar>v\<bar> < 2 powi (expo v + 1)"
  then have big: "2 powi (expo v + 1) \<le> \<bar>v\<bar>" by simp
  show False
  proof (cases "expo v + 1 \<le> 1023")
    case True
    with big expo_range [of v] have "expo v + 1 \<le> expo v" by (intro expo_ge) simp_all
    then show False by simp
  next
    case False
    with expo_range [of v] have "expo v + 1 = 1024" by simp
    with big small show False by simp
  qed
qed

lemma expo_unique:
  assumes "- 1022 \<le> e" "e \<le> 1023" "2 powi e \<le> \<bar>v\<bar>" "\<bar>v\<bar> < 2 powi (e + 1)"
  shows "expo v = e"
proof -
  have lower: "e \<le> expo v" using assms(1-3) by (rule expo_ge)
  have "(2::real) powi (- 1022) \<le> 2 powi e" using assms(1) by (rule pow2_le)
  with assms(3) have "2 powi (- 1022) \<le> \<bar>v\<bar>" by simp
  then have "2 powi (expo v) \<le> \<bar>v\<bar>" by (rule expo_le_pow)
  with assms(4) have "(2::real) powi (expo v) < 2 powi (e + 1)" by simp
  then have "expo v < e + 1" by (rule pow2_less_D)
  with lower show ?thesis by simp
qed

lemma expo_low: "\<bar>v\<bar> < 2 powi (- 1021) \<Longrightarrow> expo v = - 1022"
proof (rule ccontr)
  assume small: "\<bar>v\<bar> < 2 powi (- 1021)" and ne: "expo v \<noteq> - 1022"
  with expo_in [of v] have "2 powi (expo v) \<le> \<bar>v\<bar>" by auto
  with small have "(2::real) powi (expo v) < 2 powi (- 1021)" by simp
  then have "expo v < - 1021" by (rule pow2_less_D)
  with expo_range [of v] ne show False by simp
qed

text \<open>
  Rounding to the nearest integer keeps an integer, respects integer bounds, and yields
  the integer within one half of its argument.
\<close>

lemma rne_int: "rne (of_int n) = n"
  by (simp add: rne_def)

lemma rne_ge: "of_int m \<le> y \<Longrightarrow> m \<le> rne y"
proof -
  assume "of_int m \<le> y"
  then have "m \<le> \<lfloor>y\<rfloor>" by (simp add: le_floor_iff)
  moreover have "\<lfloor>y\<rfloor> \<le> rne y" by (simp add: rne_def Let_def)
  ultimately show ?thesis by simp
qed

lemma rne_le: "y \<le> of_int m \<Longrightarrow> rne y \<le> m"
proof (cases "y = of_int m")
  case True
  then show ?thesis by (simp add: rne_int)
next
  case False
  assume "y \<le> of_int m"
  with False have "y < of_int m" by simp
  then have "\<lfloor>y\<rfloor> < m" by (simp add: floor_less_iff)
  moreover have "rne y \<le> \<lfloor>y\<rfloor> + 1" by (simp add: rne_def Let_def)
  ultimately show ?thesis by simp
qed

lemma rne_near: "\<bar>y - of_int n\<bar> < 1 / 2 \<Longrightarrow> rne y = n"
proof -
  assume near: "\<bar>y - of_int n\<bar> < 1 / 2"
  then have up: "y - of_int n < 1 / 2" and down: "- (1 / 2) < y - of_int n"
    by linarith+
  show ?thesis
  proof (cases "of_int n \<le> y")
    case True
    have "\<lfloor>y\<rfloor> = n"
    proof (rule floor_unique)
      show "of_int n \<le> y" by (rule True)
      show "y < of_int n + 1" using up by linarith
    qed
    with up show ?thesis by (simp add: rne_def Let_def)
  next
    case False
    have fl: "\<lfloor>y\<rfloor> = n - 1"
    proof (rule floor_unique)
      show "of_int (n - 1) \<le> y" using down by simp
      show "y < of_int (n - 1) + 1" using False by simp
    qed
    have "1 / 2 < y - of_int (n - 1)" using down by simp
    then show ?thesis using fl by (simp add: rne_def Let_def)
  qed
qed

lemma rne_abs_le: "\<bar>y\<bar> \<le> of_int b \<Longrightarrow> \<bar>rne y\<bar> \<le> b"
proof -
  assume "\<bar>y\<bar> \<le> of_int b"
  then have "y \<le> of_int b" and "of_int (- b) \<le> y" by (simp_all add: abs_le_iff)
  then have "rne y \<le> b" and "- b \<le> rne y" by (simp_all add: rne_le rne_ge)
  then show ?thesis by simp
qed

lemma rne_abs_ge: "of_int a \<le> \<bar>y\<bar> \<Longrightarrow> a \<le> \<bar>rne y\<bar>"
proof (cases "0 \<le> y")
  case True
  assume "of_int a \<le> \<bar>y\<bar>"
  with True have "of_int a \<le> y" by simp
  then have "a \<le> rne y" by (rule rne_ge)
  then show ?thesis by simp
next
  case False
  assume "of_int a \<le> \<bar>y\<bar>"
  with False have "y \<le> of_int (- a)" by simp
  then have "rne y \<le> - a" by (rule rne_le)
  then show ?thesis by simp
qed

lemma real_le_pow2: "(a::int) \<le> 2 ^ k \<Longrightarrow> (of_int a :: real) \<le> 2 ^ k"
proof -
  assume "a \<le> 2 ^ k"
  then have "(of_int a :: real) \<le> of_int (2 ^ k)" by (simp only: of_int_le_iff)
  then show ?thesis by simp
qed

lemma real_less_pow2: "(a::int) < 2 ^ k \<Longrightarrow> (of_int a :: real) < 2 ^ k"
proof -
  assume "a < 2 ^ k"
  then have "(of_int a :: real) < of_int (2 ^ k)" by (simp only: of_int_less_iff)
  then show ?thesis by simp
qed

lemma real_ge_pow2: "2 ^ k \<le> (a::int) \<Longrightarrow> 2 ^ k \<le> (of_int a :: real)"
proof -
  assume "2 ^ k \<le> a"
  then have "(of_int (2 ^ k) :: real) \<le> of_int a" by (simp only: of_int_le_iff)
  then show ?thesis by simp
qed

text \<open>
  A multiple of its own spacing rounds to itself; a value of magnitude \<open>2 powi 1024\<close> or more
  overflows; and rounding is idempotent, so every finite result of \<open>fl\<close> is a binary64 value.
\<close>

lemma round64_fix: "v = of_int m * 2 powi (expo v - 52) \<Longrightarrow> round64 v = v"
proof -
  assume eq: "v = of_int m * 2 powi (expo v - 52)"
  have "v / 2 powi (expo v - 52) = of_int m"
    by (subst eq) simp
  then show ?thesis
    unfolding round64_def by (simp add: rne_int eq [symmetric])
qed

lemma round64_abs: "\<bar>round64 v\<bar> = of_int \<bar>rne (v / 2 powi (expo v - 52))\<bar> * 2 powi (expo v - 52)"
  unfolding round64_def by (simp add: abs_mult)

lemma round64_overflow: "2 powi 1024 \<le> \<bar>v\<bar> \<Longrightarrow> 2 powi 1024 \<le> \<bar>round64 v\<bar>"
proof -
  assume big: "2 powi 1024 \<le> \<bar>v\<bar>"
  have "(2::real) powi 1023 \<le> 2 powi 1024" by (rule pow2_le) simp
  with big have "1023 \<le> expo v" by (intro expo_ge) simp_all
  with expo_range [of v] have e: "expo v = 1023" by simp
  let ?u = "(2::real) powi (expo v - 52)"
  have u: "0 < ?u" by simp
  have "2 ^ 53 * ?u = 2 powi (expo v + 1)" by (rule ulp_53)
  with e big have "2 ^ 53 * ?u \<le> \<bar>v\<bar>" by simp
  then have "2 ^ 53 \<le> \<bar>v\<bar> / ?u" using u by (simp add: pos_le_divide_eq)
  then have "of_int (2 ^ 53) \<le> \<bar>v / ?u\<bar>" by simp
  then have "2 ^ 53 \<le> \<bar>rne (v / ?u)\<bar>" by (rule rne_abs_ge)
  then have "(2::real) ^ 53 \<le> of_int \<bar>rne (v / ?u)\<bar>" by (rule real_ge_pow2)
  then have "2 ^ 53 * ?u \<le> of_int \<bar>rne (v / ?u)\<bar> * ?u"
    using u by (simp only: mult_le_cancel_right_pos)
  then show ?thesis
    using e by (simp only: round64_abs ulp_53) simp
qed

lemma round64_idem:
  assumes fin: "\<bar>round64 v\<bar> < 2 powi 1024"
  shows "round64 (round64 v) = round64 v"
proof -
  let ?e = "expo v"
  let ?u = "(2::real) powi (?e - 52)"
  let ?n = "rne (v / ?u)"
  let ?r = "round64 v"
  have u: "0 < ?u" by simp
  have r: "?r = of_int ?n * ?u" by (simp add: round64_def)
  have absr: "\<bar>?r\<bar> = of_int \<bar>?n\<bar> * ?u" by (rule round64_abs)
  have small: "\<bar>v\<bar> < 2 powi 1024"
    using fin round64_overflow [of v] by (cases "\<bar>v\<bar> < 2 powi 1024") simp_all
  have upper: "\<bar>?n\<bar> \<le> 2 ^ 53"
  proof -
    have "\<bar>v\<bar> < 2 powi (?e + 1)" using small by (rule expo_lt_pow)
    then have "\<bar>v\<bar> < 2 ^ 53 * ?u" by (simp only: ulp_53)
    then have "\<bar>v\<bar> / ?u < 2 ^ 53" using u by (simp add: pos_divide_less_eq)
    then have "\<bar>v / ?u\<bar> \<le> of_int (2 ^ 53)" by simp
    then show ?thesis by (rule rne_abs_le)
  qed
  show ?thesis
  proof (cases "\<bar>v\<bar> < 2 powi (- 1022)")
    case True
    then have "\<bar>v\<bar> < 2 powi (- 1021)"
      using pow2_less [of "- 1022" "- 1021"] by simp
    then have e: "?e = - 1022" by (rule expo_low)
    have "\<bar>v\<bar> < 2 ^ 52 * ?u" using True e by (simp only: ulp_52)
    then have "\<bar>v\<bar> / ?u < 2 ^ 52" using u by (simp add: pos_divide_less_eq)
    then have "\<bar>v / ?u\<bar> \<le> of_int (2 ^ 52)" by simp
    then have "\<bar>?n\<bar> \<le> 2 ^ 52" by (rule rne_abs_le)
    then have "(of_int \<bar>?n\<bar> :: real) \<le> 2 ^ 52" by (rule real_le_pow2)
    then have "of_int \<bar>?n\<bar> * ?u \<le> 2 ^ 52 * ?u"
      using u by (simp only: mult_le_cancel_right_pos)
    then have "\<bar>?r\<bar> \<le> 2 powi (- 1022)"
      using e by (simp only: absr ulp_52)
    then have "\<bar>?r\<bar> < 2 powi (- 1021)"
      using pow2_less [of "- 1022" "- 1021"] by simp
    then have "expo ?r = - 1022" by (rule expo_low)
    with e r have "?r = of_int ?n * 2 powi (expo ?r - 52)" by simp
    then show ?thesis by (rule round64_fix)
  next
    case False
    then have normal: "2 powi (- 1022) \<le> \<bar>v\<bar>" by simp
    have "2 powi ?e \<le> \<bar>v\<bar>" using normal by (rule expo_le_pow)
    then have "2 ^ 52 * ?u \<le> \<bar>v\<bar>" by (simp only: ulp_52)
    then have "2 ^ 52 \<le> \<bar>v\<bar> / ?u" using u by (simp add: pos_le_divide_eq)
    then have "of_int (2 ^ 52) \<le> \<bar>v / ?u\<bar>" by simp
    then have lower: "2 ^ 52 \<le> \<bar>?n\<bar>" by (rule rne_abs_ge)
    then have "(2::real) ^ 52 \<le> of_int \<bar>?n\<bar>" by (rule real_ge_pow2)
    then have "2 ^ 52 * ?u \<le> of_int \<bar>?n\<bar> * ?u"
      using u by (simp only: mult_le_cancel_right_pos)
    then have rlow: "2 powi ?e \<le> \<bar>?r\<bar>" by (simp only: absr ulp_52)
    show ?thesis
    proof (cases "\<bar>?n\<bar> < 2 ^ 53")
      case True
      then have "(of_int \<bar>?n\<bar> :: real) < 2 ^ 53" by (rule real_less_pow2)
      then have "of_int \<bar>?n\<bar> * ?u < 2 ^ 53 * ?u"
        using u by (simp only: mult_less_cancel_right_pos)
      then have "\<bar>?r\<bar> < 2 powi (?e + 1)" by (simp only: absr ulp_53)
      with expo_range [of v] rlow have "expo ?r = ?e" by (intro expo_unique) simp_all
      with r have "?r = of_int ?n * 2 powi (expo ?r - 52)" by simp
      then show ?thesis by (rule round64_fix)
    next
      case False
      with upper have top: "\<bar>?n\<bar> = 2 ^ 53" by simp
      then have "of_int \<bar>?n\<bar> * ?u = 2 ^ 53 * ?u" by simp
      then have rtop: "\<bar>?r\<bar> = 2 powi (?e + 1)" by (simp only: absr ulp_53)
      with fin have "(2::real) powi (?e + 1) < 2 powi 1024" by simp
      then have "?e + 1 < 1024" by (rule pow2_less_D)
      moreover have "\<bar>?r\<bar> < 2 powi (?e + 1 + 1)"
        using rtop pow2_less [of "?e + 1" "?e + 1 + 1"] by simp
      ultimately have e': "expo ?r = ?e + 1"
        using expo_range [of v] rtop by (intro expo_unique) simp_all
      from top have "?n = 2 * (?n div 2)" by simp presburger
      then have "(of_int ?n :: real) = of_int (?n div 2) * 2"
        by (metis of_int_mult of_int_numeral mult.commute)
      then have half: "?r = of_int (?n div 2) * (2 * ?u)" using r by simp
      have "2 * ?u = 2 powi (expo ?r - 52)" by (simp only: ulp_double e')
      then have "of_int (?n div 2) * (2 * ?u) = of_int (?n div 2) * 2 powi (expo ?r - 52)"
        by (rule arg_cong)
      with half have "?r = of_int (?n div 2) * 2 powi (expo ?r - 52)" by (rule trans)
      then show ?thesis by (rule round64_fix)
    qed
  qed
qed

lemma fl_idem: "fl v = Num r \<Longrightarrow> fl r = Num r"
proof -
  assume "fl v = Num r"
  then have r: "r = round64 v" and fin: "\<bar>round64 v\<bar> < 2 powi 1024"
    by (auto simp: fl_def Let_def split: if_splits)
  from fin have "round64 (round64 v) = round64 v" by (rule round64_idem)
  with r fin show ?thesis by (simp add: fl_def Let_def)
qed

lemma fl_zero: "fl 0 = Num 0"
proof -
  have "round64 0 = 0" by (simp add: round64_def rne_def)
  then show ?thesis by (simp add: fl_def Let_def)
qed

lemma fl_nonpos: "v \<le> 0 \<Longrightarrow> \<not> js_gt (fl v) (Num 0)"
proof -
  assume v: "v \<le> 0"
  have "v / 2 powi (expo v - 52) \<le> of_int 0"
    using v by (simp add: divide_nonpos_pos)
  then have "rne (v / 2 powi (expo v - 52)) \<le> 0" by (rule rne_le)
  then have "round64 v \<le> 0"
    unfolding round64_def by (simp add: mult_nonpos_nonneg)
  with v show ?thesis by (simp add: fl_def Let_def)
qed

text \<open>
  Evaluation of \<open>fl\<close> at a value whose binade \<open>e\<close> and rounded significand \<open>n\<close> are given.
\<close>

lemma fl_eval:
  assumes "- 1022 \<le> e" "e \<le> 1023" "2 powi e \<le> \<bar>v\<bar>" "\<bar>v\<bar> < 2 powi (e + 1)"
    and near: "\<bar>v / 2 powi (e - 52) - of_int n\<bar> < 1 / 2" and n: "\<bar>n\<bar> < 2 ^ 53"
  shows "fl v = Num (of_int n * 2 powi (e - 52))"
proof -
  have e: "expo v = e" using assms(1-4) by (rule expo_unique)
  have rn: "rne (v / 2 powi (e - 52)) = n" using near by (rule rne_near)
  have r: "round64 v = of_int n * 2 powi (e - 52)" by (simp add: round64_def e rn)
  have "(of_int \<bar>n\<bar> :: real) < 2 ^ 53" using n by (rule real_less_pow2)
  then have "of_int \<bar>n\<bar> * (2::real) powi (e - 52) < 2 ^ 53 * 2 powi (e - 52)"
    by (simp only: mult_less_cancel_right_pos zero_less_power_int zero_less_numeral)
  then have "\<bar>round64 v\<bar> < 2 powi (e + 1)"
    by (simp only: r ulp_53 abs_mult abs_of_pos zero_less_power_int zero_less_numeral of_int_abs)
  moreover have "(2::real) powi (e + 1) \<le> 2 powi 1024" using assms(2) by (intro pow2_le) simp
  ultimately have "\<bar>round64 v\<bar> < 2 powi 1024" by simp
  then show ?thesis by (simp add: fl_def Let_def r)
qed

lemma fl_evalI:
  assumes "- 1022 \<le> e" "e \<le> 1023" "2 powi e \<le> \<bar>v\<bar>" "\<bar>v\<bar> < 2 powi (e + 1)"
    and "\<bar>v / 2 powi (e - 52) - of_int n\<bar> < 1 / 2" and "\<bar>n\<bar> < 2 ^ 53"
    and "r = of_int n * 2 powi (e - 52)"
  shows "fl v = Num r"
  using fl_eval [OF assms(1-6)] assms(7) by simp

section \<open>Properties of the progress figures\<close>

text \<open>
  Every running total is a number JavaScript can hold, adding the literal 0 leaves it as it
  is, and so the \<open>reduce\<close> of the source is the left-to-right sum over the approved entries.
\<close>

lemma js_valid_fl: "js_valid (fl v)"
  by (cases "fl v") (simp_all add: is_double_def fl_idem)

lemma js_valid_add: "js_valid (js_add a b)"
  by (cases a; cases b) (simp_all add: js_valid_fl)

lemma js_add_zero: "js_valid s \<Longrightarrow> js_add s (Num 0) = s"
  by (cases s) (simp_all add: is_double_def)

lemma total_fold:
  "js_valid acc \<Longrightarrow>
   foldl (\<lambda>sum p. js_add sum (if status p = approved then fl (metersCompleted p) else Num 0)) acc ledger =
   foldl js_add acc (map (\<lambda>p. fl (metersCompleted p)) (filter (\<lambda>p. status p = approved) ledger))"
proof (induction ledger arbitrary: acc)
  case Nil
  show ?case by simp
next
  case (Cons p ledger)
  show ?case
  proof (cases "status p = approved")
    case True
    then show ?thesis using Cons.IH [OF js_valid_add] by simp
  next
    case False
    then show ?thesis using Cons.IH [OF Cons.prems] Cons.prems by (simp add: js_add_zero)
  qed
qed

lemma Math_min_100: "Math_min (Num 100) (Num a) = Num (min 100 a)"
  by (simp add: Math_min_def min_def)

lemma Math_max_0: "Math_max (Num 0) (Num a) = Num (max 0 a)"
  by (simp add: Math_max_def max_def)

text \<open>
  C4, as the code has it, every operation in binary64 arithmetic. \<open>totalCompleted\<close> is the
  left-to-right sum of \<open>metersCompleted\<close> over the entries whose status is approved; the other
  entries add nothing. \<open>progressPercentage\<close> is 0 when the perimeter is 0 (or negative).
  For a positive perimeter \<open>p\<close> and a finite total \<open>t\<close> it is the smaller of 100 and the
  nearest integer to \<open>s\<close>, where \<open>q\<close> is the rounded quotient \<open>t / p\<close> and \<open>s\<close> the rounded
  product \<open>q * 100\<close>; when both operations are exact this is the smaller of 100 and
  \<open>100 * t / p\<close> rounded to the nearest integer. \<open>daysRemaining\<close> is the number 0 when the
  commitment rate is 0 (or negative). For a positive rate \<open>c\<close> it is the ceiling of \<open>q\<close>,
  where \<open>d\<close> is the rounded difference \<open>p - t\<close> and \<open>q\<close> the rounded quotient \<open>max 0 d / c\<close>;
  when both operations are exact this is the ceiling of \<open>max 0 (p - t) / c\<close>.
\<close>

theorem progress_figures:
  "totalCompleted ledger =
     foldl js_add (Num 0)
       (map (\<lambda>p. fl (metersCompleted p)) (filter (\<lambda>p. status p = approved) ledger)) \<and>
   (perimeter \<le> 0 \<longrightarrow> progressPercentage perimeter ledger = Num 0) \<and>
   (\<forall>p t q s. fl perimeter = Num p \<and> 0 < p \<and> totalCompleted ledger = Num t \<and>
        fl (t / p) = Num q \<and> fl (q * 100) = Num s \<longrightarrow>
        progressPercentage perimeter ledger = Num (min 100 (of_int \<lfloor>s + 1 / 2\<rfloor>))) \<and>
   (\<forall>p t. fl perimeter = Num p \<and> 0 < p \<and> totalCompleted ledger = Num t \<and>
        is_double (t / p) \<and> is_double (t / p * 100) \<longrightarrow>
        progressPercentage perimeter ledger = Num (min 100 (of_int \<lfloor>100 * t / p + 1 / 2\<rfloor>))) \<and>
   (commitment \<le> 0 \<longrightarrow> daysRemaining commitment perimeter ledger = Num 0) \<and>
   (\<forall>c p t d q. fl commitment = Num c \<and> 0 < c \<and> fl perimeter = Num p \<and>
        totalCompleted ledger = Num t \<and> fl (p - t) = Num d \<and> fl (max 0 d / c) = Num q \<longrightarrow>
        daysRemaining commitment perimeter ledger = Num (of_int \<lceil>q\<rceil>)) \<and>
   (\<forall>c p t. fl commitment = Num c \<and> 0 < c \<and> fl perimeter = Num p \<and>
        totalCompleted ledger = Num t \<and> is_double (p - t) \<and> is_double (max 0 (p - t) / c) \<longrightarrow>
        daysRemaining commitment perimeter ledger = Num (of_int \<lceil>max 0 (p - t) / c\<rceil>))"
proof -
  have total: "totalCompleted ledger =
     foldl js_add (Num 0)
       (map (\<lambda>p. fl (metersCompleted p)) (filter (\<lambda>p. status p = approved) ledger))"
    unfolding totalCompleted_def
    by (rule total_fold) (simp add: is_double_def fl_zero)
  have pzero: "perimeter \<le> 0 \<longrightarrow> progressPercentage perimeter ledger = Num 0"
    by (simp add: progressPercentage_def fl_nonpos)
  have pct: "progressPercentage perimeter ledger = Num (min 100 (of_int \<lfloor>s + 1 / 2\<rfloor>))"
    if "fl perimeter = Num p" "0 < p" "totalCompleted ledger = Num t"
      "fl (t / p) = Num q" "fl (q * 100) = Num s" for p t q s
    using that by (simp add: progressPercentage_def Math_min_100)
  have pexact: "progressPercentage perimeter ledger =
        Num (min 100 (of_int \<lfloor>100 * t / p + 1 / 2\<rfloor>))"
    if "fl perimeter = Num p" "0 < p" "totalCompleted ledger = Num t"
      "is_double (t / p)" "is_double (t / p * 100)" for p t
  proof -
    have "progressPercentage perimeter ledger =
        Num (min 100 (of_int \<lfloor>t / p * 100 + 1 / 2\<rfloor>))"
      using that by (intro pct [where q = "t / p"]) (simp_all add: is_double_def)
    then show ?thesis by (simp add: mult.commute)
  qed
  have dzero: "commitment \<le> 0 \<longrightarrow> daysRemaining commitment perimeter ledger = Num 0"
    by (simp add: daysRemaining_def fl_nonpos)
  have days: "daysRemaining commitment perimeter ledger = Num (of_int \<lceil>q\<rceil>)"
    if "fl commitment = Num c" "0 < c" "fl perimeter = Num p" "totalCompleted ledger = Num t"
      "fl (p - t) = Num d" "fl (max 0 d / c) = Num q" for c p t d q
    using that by (simp add: daysRemaining_def js_sub_def Math_max_0)
  have dexact: "daysRemaining commitment perimeter ledger =
        Num (of_int \<lceil>max 0 (p - t) / c\<rceil>)"
    if "fl commitment = Num c" "0 < c" "fl perimeter = Num p" "totalCompleted ledger = Num t"
      "is_double (p - t)" "is_double (max 0 (p - t) / c)" for c p t
    using that by (intro days [where d = "p - t"]) (simp_all add: is_double_def)
  have pct_all: "\<forall>p t q s. fl perimeter = Num p \<and> 0 < p \<and> totalCompleted ledger = Num t \<and>
        fl (t / p) = Num q \<and> fl (q * 100) = Num s \<longrightarrow>
        progressPercentage perimeter ledger = Num (min 100 (of_int \<lfloor>s + 1 / 2\<rfloor>))"
    by (intro allI impI, elim conjE, rule pct)
  have pexact_all: "\<forall>p t. fl perimeter = Num p \<and> 0 < p \<and> totalCompleted ledger = Num t \<and>
        is_double (t / p) \<and> is_double (t / p * 100) \<longrightarrow>
        progressPercentage perimeter ledger = Num (min 100 (of_int \<lfloor>100 * t / p + 1 / 2\<rfloor>))"
    by (intro allI impI, elim conjE, rule pexact)
  have days_all: "\<forall>c p t d q. fl commitment = Num c \<and> 0 < c \<and> fl perimeter = Num p \<and>
        totalCompleted ledger = Num t \<and> fl (p - t) = Num d \<and> fl (max 0 d / c) = Num q \<longrightarrow>
        daysRemaining commitment perimeter ledger = Num (of_int \<lceil>q\<rceil>)"
    by (intro allI impI, elim conjE, rule days)
  have dexact_all: "\<forall>c p t. fl commitment = Num c \<and> 0 < c \<and> fl perimeter = Num p \<and>
        totalCompleted ledger = Num t \<and> is_double (p - t) \<and> is_double (max 0 (p - t) / c) \<longrightarrow>
        daysRemaining commitment perimeter ledger = Num (of_int \<lceil>max 0 (p - t) / c\<rceil>)"
    by (intro allI impI, elim conjE, rule dexact)
  show ?thesis
    by (intro conjI; fact)
qed

text \<open>
  The example of the specification: rate 50, perimeter 400 and one approved entry of 100
  metres give 25 percent and 6 days; every operation on the way is exact.
\<close>

theorem progress_figures_witness:
  "progressPercentage 400
     [\<lparr>entry_id = ''e1'', date = 1, metersCompleted = 100, status = approved,
        entry_notes = None, entry_customTileUrl = None\<rparr>] = Num 25 \<and>
   daysRemaining 50 400
     [\<lparr>entry_id = ''e1'', date = 1, metersCompleted = 100, status = approved,
        entry_notes = None, entry_customTileUrl = None\<rparr>] = Num 6 \<and>
   totalCompleted
     [\<lparr>entry_id = ''e1'', date = 1, metersCompleted = 100, status = approved,
        entry_notes = None, entry_customTileUrl = None\<rparr>] = Num 100 \<and>
   progressPercentage 0
     [\<lparr>entry_id = ''e1'', date = 1, metersCompleted = 100, status = approved,
        entry_notes = None, entry_customTileUrl = None\<rparr>] = Num 0 \<and>
   daysRemaining (- 1) 400
     [\<lparr>entry_id = ''e1'', date = 1, metersCompleted = 100, status = approved,
        entry_notes = None, entry_customTileUrl = None\<rparr>] = Num 0"
proof -
  let ?ledger = "[\<lparr>entry_id = ''e1'', date = 1, metersCompleted = 100, status = approved,
        entry_notes = None, entry_customTileUrl = None\<rparr>]"
  have f400: "fl 400 = Num 400"
    by (rule fl_evalI [where e = 8 and n = 7036874417766400]) simp_all
  have f100: "fl 100 = Num 100"
    by (rule fl_evalI [where e = 6 and n = 7036874417766400]) simp_all
  have f50: "fl 50 = Num 50"
    by (rule fl_evalI [where e = 5 and n = 7036874417766400]) simp_all
  have quarter: "fl (1 / 4) = Num (1 / 4)"
    by (rule fl_evalI [where e = "- 2" and n = 4503599627370496]) simp_all
  have f25: "fl 25 = Num 25"
    by (rule fl_evalI [where e = 4 and n = 7036874417766400]) simp_all
  have f300: "fl 300 = Num 300"
    by (rule fl_evalI [where e = 8 and n = 5277655813324800]) simp_all
  have f6: "fl 6 = Num 6"
    by (rule fl_evalI [where e = 2 and n = 6755399441055744]) simp_all
  have total: "totalCompleted ?ledger = Num 100"
    using f100 by (simp add: totalCompleted_def)
  note inst = progress_figures [of ?ledger 400 50]
  note pct = inst [THEN conjunct2, THEN conjunct2, THEN conjunct1, rule_format,
      of 400 100 "1 / 4" 25]
  note days = inst [THEN conjunct2, THEN conjunct2, THEN conjunct2, THEN conjunct2,
      THEN conjunct2, THEN conjunct1, rule_format, of 50 400 100 300 6]
  have "progressPercentage 400 ?ledger = Num (min 100 (of_int \<lfloor>(25 :: real) + 1 / 2\<rfloor>))"
    by (rule pct) (simp add: f400 total quarter f25)
  moreover have "daysRemaining 50 400 ?ledger = Num (of_int \<lceil>6 :: real\<rceil>)"
    by (rule days) (simp add: f50 f400 total f300 f6)
  moreover have "progressPercentage 0 ?ledger = Num 0"
    using progress_figures [of ?ledger 0 50] by simp
  moreover have "daysRemaining (- 1) 400 ?ledger = Num 0"
    using progress_figures [of ?ledger 400 "- 1"] by simp
  ultimately show ?thesis using total by simp
qed

text \<open>
  C4 as stated asks for an undefined or infinite \<open>estimatedDaysRemaining\<close> when the rate is
  not positive, and for the percentage \<open>round(100 * total / perimeter)\<close>. At rate 0, with
  300 metres left, the code yields the number 0. At 23 metres of 40 the quotient rounds to
  \<open>5179139571476070 / 2 ^ 53\<close> and its product with 100 to 57.49999999999999, so the code
  yields 57 where the stated formula gives 58.
\<close>

theorem progress_figures_counterexample:
  "daysRemaining 0 400
     [\<lparr>entry_id = ''e1'', date = 1, metersCompleted = 100, status = approved,
        entry_notes = None, entry_customTileUrl = None\<rparr>] = Num 0 \<and>
   progressPercentage 40
     [\<lparr>entry_id = ''e1'', date = 1, metersCompleted = 23, status = approved,
        entry_notes = None, entry_customTileUrl = None\<rparr>] = Num 57 \<and>
   min 100 (of_int \<lfloor>100 * 23 / 40 + 1 / 2\<rfloor>) = (58 :: real)"
proof -
  have f40: "fl 40 = Num 40"
    by (rule fl_evalI [where e = 5 and n = 5629499534213120]) simp_all
  have f23: "fl 23 = Num 23"
    by (rule fl_evalI [where e = 4 and n = 6473924464345088]) simp_all
  have quot: "fl (23 / 40) = Num (5179139571476070 / 2 ^ 53)"
    by (rule fl_evalI [where e = "- 1" and n = 5179139571476070]) simp_all
  have prod: "fl (5179139571476070 / 2 ^ 53 * 100) = Num (8092405580431359 / 2 ^ 47)"
    by (rule fl_evalI [where e = 5 and n = 8092405580431359]) simp_all
  have "progressPercentage 40 [\<lparr>entry_id = ''e1'', date = 1, metersCompleted = 23, status = approved,
        entry_notes = None, entry_customTileUrl = None\<rparr>] = Num 57"
    using f40 f23 quot prod by (simp add: progressPercentage_def totalCompleted_def Math_min_100)
  moreover have "daysRemaining 0 400 [\<lparr>entry_id = ''e1'', date = 1, metersCompleted = 100, status = approved,
        entry_notes = None, entry_customTileUrl = None\<rparr>] = Num 0"
    by (simp add: daysRemaining_def fl_zero)
  ultimately show ?thesis by simp
qed

section \<open>Properties of the editing session\<close>

text \<open>
  C2, as the code has it. Opening a site without vertices starts the editor drawing and
  not finished; opening a site with at least two vertices starts it finished and not
  drawing.
\<close>

theorem SiteEditor_initial_flags:
  "(site_points site = [] \<longrightarrow> isDrawing (SiteEditor site) \<and> \<not> isFinished (SiteEditor site)) \<and>
   (2 \<le> length (site_points site) \<longrightarrow>
      \<not> isDrawing (SiteEditor site) \<and> isFinished (SiteEditor site))"
  by (auto simp: SiteEditor_def)

theorem SiteEditor_initial_flags_witness:
  "isDrawing (SiteEditor \<lparr>site_id = ''s1'', site_name = ''yard'', site_createdAt = 1,
      site_points = [],
      site_metrics = \<lparr>perimeterMeters = 0, vertexCount = 0, estimatedWalkTimeMinutes = 0\<rparr>,
      site_isClosed = Some True, site_customTileUrl = None,
      site_contractorCommitmentPerDay = None, site_dailyProgress = None\<rparr>) \<and>
   \<not> isFinished (SiteEditor \<lparr>site_id = ''s1'', site_name = ''yard'', site_createdAt = 1,
      site_points = [],
      site_metrics = \<lparr>perimeterMeters = 0, vertexCount = 0, estimatedWalkTimeMinutes = 0\<rparr>,
      site_isClosed = Some True, site_customTileUrl = None,
      site_contractorCommitmentPerDay = None, site_dailyProgress = None\<rparr>) \<and>
   \<not> isDrawing (SiteEditor \<lparr>site_id = ''s1'', site_name = ''yard'', site_createdAt = 1,
      site_points = [\<lparr>lat = 0, lng = 0\<rparr>, \<lparr>lat = 3, lng = 0\<rparr>],
      site_metrics = \<lparr>perimeterMeters = 6, vertexCount = 2, estimatedWalkTimeMinutes = 1 / 10\<rparr>,
      site_isClosed = Some True, site_customTileUrl = None,
      site_contractorCommitmentPerDay = None, site_dailyProgress = None\<rparr>) \<and>
   isFinished (SiteEditor \<lparr>site_id = ''s1'', site_name = ''yard'', site_createdAt = 1,
      site_points = [\<lparr>lat = 0, lng = 0\<rparr>, \<lparr>lat = 3, lng = 0\<rparr>],
      site_metrics = \<lparr>perimeterMeters = 6, vertexCount = 2, estimatedWalkTimeMinutes = 1 / 10\<rparr>,
      site_isClosed = Some True, site_customTileUrl = None,
      site_contractorCommitmentPerDay = None, site_dailyProgress = None\<rparr>)"
  using SiteEditor_initial_flags [of "\<lparr>site_id = ''s1'', site_name = ''yard'', site_createdAt = 1,
      site_points = [],
      site_metrics = \<lparr>perimeterMeters = 0, vertexCount = 0, estimatedWalkTimeMinutes = 0\<rparr>,
      site_isClosed = Some True, site_customTileUrl = None,
      site_contractorCommitmentPerDay = None, site_dailyProgress = None\<rparr>"]
    SiteEditor_initial_flags [of "\<lparr>site_id = ''s1'', site_name = ''yard'', site_createdAt = 1,
      site_points = [\<lparr>lat = 0, lng = 0\<rparr>, \<lparr>lat = 3, lng = 0\<rparr>],
      site_metrics = \<lparr>perimeterMeters = 6, vertexCount = 2, estimatedWalkTimeMinutes = 1 / 10\<rparr>,
      site_isClosed = Some True, site_customTileUrl = None,
      site_contractorCommitmentPerDay = None, site_dailyProgress = None\<rparr>"]
  by simp

text \<open>
  C2 as stated asks for the finished phase from one vertex on. A site with exactly one
  vertex opens not finished: \<open>isFinished\<close> starts as \<open>site.points.length > 1\<close>, the same bound
  that \<open>handleFinish\<close> tests.
\<close>

theorem SiteEditor_one_vertex_counterexample:
  "1 \<le> length (site_points \<lparr>site_id = ''s1'', site_name = ''yard'', site_createdAt = 1,
      site_points = [\<lparr>lat = 0, lng = 0\<rparr>],
      site_metrics = \<lparr>perimeterMeters = 0, vertexCount = 1, estimatedWalkTimeMinutes = 0\<rparr>,
      site_isClosed = Some True, site_customTileUrl = None,
      site_contractorCommitmentPerDay = None, site_dailyProgress = None\<rparr>) \<and>
   \<not> isFinished (SiteEditor \<lparr>site_id = ''s1'', site_name = ''yard'', site_createdAt = 1,
      site_points = [\<lparr>lat = 0, lng = 0\<rparr>],
      site_metrics = \<lparr>perimeterMeters = 0, vertexCount = 1, estimatedWalkTimeMinutes = 0\<rparr>,
      site_isClosed = Some True, site_customTileUrl = None,
      site_contractorCommitmentPerDay = None, site_dailyProgress = None\<rparr>)"
  by (simp add: SiteEditor_def)

text \<open>
  C3, as the code has it. Opening a site and saving at once returns the site unchanged
  when the site carries a closure flag, a commitment rate other than 0, a ledger, a tile
  URL that is absent or not empty, and metrics equal to \<open>calculateMetrics\<close> of its points and
  closure flag.
\<close>

theorem load_save_roundtrip:
  assumes "site_isClosed site = Some c"
    and "site_contractorCommitmentPerDay site = Some r" and "r \<noteq> 0"
    and "site_dailyProgress site = Some ledger"
    and "site_customTileUrl site \<noteq> Some []"
    and "site_metrics site = calculateMetrics distanceTo (site_points site) c"
  shows "handleSave distanceTo site (SiteEditor site) = site"
  using assms
  unfolding handleSave_def SiteEditor_def
  by (cases site) (auto simp: nullish_def or_number_def or_array_def or_string_def split: option.splits)

theorem load_save_roundtrip_witness:
  "handleSave (\<lambda>a b. \<bar>lat a - lat b\<bar> + \<bar>lng a - lng b\<bar>)
     \<lparr>site_id = ''s1'', site_name = ''yard'', site_createdAt = 1,
      site_points = [\<lparr>lat = 0, lng = 0\<rparr>, \<lparr>lat = 3, lng = 0\<rparr>],
      site_metrics = \<lparr>perimeterMeters = 6, vertexCount = 2, estimatedWalkTimeMinutes = 1 / 10\<rparr>,
      site_isClosed = Some True, site_customTileUrl = Some ''tiles/z/x/y'',
      site_contractorCommitmentPerDay = Some 50,
      site_dailyProgress = Some [\<lparr>entry_id = ''e2'', date = 1, metersCompleted = 40, status = approved, entry_notes = None, entry_customTileUrl = None\<rparr>]\<rparr>
     (SiteEditor \<lparr>site_id = ''s1'', site_name = ''yard'', site_createdAt = 1,
      site_points = [\<lparr>lat = 0, lng = 0\<rparr>, \<lparr>lat = 3, lng = 0\<rparr>],
      site_metrics = \<lparr>perimeterMeters = 6, vertexCount = 2, estimatedWalkTimeMinutes = 1 / 10\<rparr>,
      site_isClosed = Some True, site_customTileUrl = Some ''tiles/z/x/y'',
      site_contractorCommitmentPerDay = Some 50,
      site_dailyProgress = Some [\<lparr>entry_id = ''e2'', date = 1, metersCompleted = 40, status = approved, entry_notes = None, entry_customTileUrl = None\<rparr>]\<rparr>) =
     \<lparr>site_id = ''s1'', site_name = ''yard'', site_createdAt = 1,
      site_points = [\<lparr>lat = 0, lng = 0\<rparr>, \<lparr>lat = 3, lng = 0\<rparr>],
      site_metrics = \<lparr>perimeterMeters = 6, vertexCount = 2, estimatedWalkTimeMinutes = 1 / 10\<rparr>,
      site_isClosed = Some True, site_customTileUrl = Some ''tiles/z/x/y'',
      site_contractorCommitmentPerDay = Some 50,
      site_dailyProgress = Some [\<lparr>entry_id = ''e2'', date = 1, metersCompleted = 40, status = approved, entry_notes = None, entry_customTileUrl = None\<rparr>]\<rparr>"
  by (rule load_save_roundtrip [where c = True and r = 50 and ledger = "[\<lparr>entry_id = ''e2'', date = 1, metersCompleted = 40, status = approved, entry_notes = None, entry_customTileUrl = None\<rparr>]"])
     (simp_all add: calculateMetrics_def Let_def Math_round_def perimeter_loop_sum)

text \<open>
  C3 as stated covers every valid site. The site that \<open>handleCreate\<close> of the project view
  builds (no points, zero metrics, closed, no rate, no ledger, no tile URL) has metrics that
  match its points, and comes back from the editor with the default rate 100 and an empty
  ledger filled in.
\<close>

theorem load_save_fresh_site_counterexample:
  "site_metrics \<lparr>site_id = ''s1'', site_name = ''yard'', site_createdAt = 1,
      site_points = [],
      site_metrics = \<lparr>perimeterMeters = 0, vertexCount = 0, estimatedWalkTimeMinutes = 0\<rparr>,
      site_isClosed = Some True, site_customTileUrl = None,
      site_contractorCommitmentPerDay = None, site_dailyProgress = None\<rparr> =
     calculateMetrics (\<lambda>a b. \<bar>lat a - lat b\<bar> + \<bar>lng a - lng b\<bar>) [] True \<and>
   handleSave (\<lambda>a b. \<bar>lat a - lat b\<bar> + \<bar>lng a - lng b\<bar>)
     \<lparr>site_id = ''s1'', site_name = ''yard'', site_createdAt = 1,
      site_points = [],
      site_metrics = \<lparr>perimeterMeters = 0, vertexCount = 0, estimatedWalkTimeMinutes = 0\<rparr>,
      site_isClosed = Some True, site_customTileUrl = None,
      site_contractorCommitmentPerDay = None, site_dailyProgress = None\<rparr>
     (SiteEditor \<lparr>site_id = ''s1'', site_name = ''yard'', site_createdAt = 1,
      site_points = [],
      site_metrics = \<lparr>perimeterMeters = 0, vertexCount = 0, estimatedWalkTimeMinutes = 0\<rparr>,
      site_isClosed = Some True, site_customTileUrl = None,
      site_contractorCommitmentPerDay = None, site_dailyProgress = None\<rparr>) \<noteq>
     \<lparr>site_id = ''s1'', site_name = ''yard'', site_createdAt = 1,
      site_points = [],
      site_metrics = \<lparr>perimeterMeters = 0, vertexCount = 0, estimatedWalkTimeMinutes = 0\<rparr>,
      site_isClosed = Some True, site_customTileUrl = None,
      site_contractorCommitmentPerDay = None, site_dailyProgress = None\<rparr>"
  by (simp add: handleSave_def SiteEditor_def calculateMetrics_def or_number_def)

text \<open>
\<open>slice(0, -1)\<close> drops the last element.
\<close>

lemma slice_butlast: "take (length xs - 1) xs = butlast xs"
  by (simp add: butlast_conv_take)

text \<open>
  C5, as the code has it. \<open>handleUndo\<close> changes nothing when there is no vertex. With at
  least one vertex it removes exactly the last one, keeps the closure flag, and leaves the
  editor drawing and not finished, whatever the phase was. The Undo button is disabled
  when there is no vertex or the shape is finished, so a click on it in the finished phase
  changes nothing; the handler itself does not test the phase.
\<close>

theorem handleUndo_removes_last:
  "(points st = [] \<longrightarrow> handleUndo st = st) \<and>
   (points st \<noteq> [] \<longrightarrow>
      points (handleUndo st) = butlast (points st) \<and>
      points (handleUndo st) @ [last (points st)] = points st \<and>
      isDrawing (handleUndo st) \<and> \<not> isFinished (handleUndo st) \<and>
      isClosed (handleUndo st) = isClosed st \<and>
      handleUndo st = st\<lparr>points := butlast (points st), isFinished := False, isDrawing := True\<rparr>) \<and>
   (undoDisabled st \<longleftrightarrow> points st = [] \<or> isFinished st) \<and>
   (isFinished st \<longrightarrow> undoButton st = st)"
  by (auto simp: handleUndo_def undoDisabled_def undoButton_def slice_butlast simp del: One_nat_def)

theorem handleUndo_removes_last_witness:
  "handleUndo \<lparr>points = [], isDrawing = True, isFinished = False, isClosed = True,
      snapToPoints = True, customTileUrl = [], contractorCommitment = 100,
      dailyProgress = [],
      newProgressMeters = [], newProgressNotes = []\<rparr> =
     \<lparr>points = [], isDrawing = True, isFinished = False, isClosed = True,
      snapToPoints = True, customTileUrl = [], contractorCommitment = 100,
      dailyProgress = [],
      newProgressMeters = [], newProgressNotes = []\<rparr> \<and>
   handleUndo \<lparr>points = [\<lparr>lat = 0, lng = 0\<rparr>, \<lparr>lat = 3, lng = 0\<rparr>], isDrawing = True, isFinished = False, isClosed = True,
      snapToPoints = True, customTileUrl = [], contractorCommitment = 100,
      dailyProgress = [],
      newProgressMeters = [], newProgressNotes = []\<rparr> =
     \<lparr>points = [\<lparr>lat = 0, lng = 0\<rparr>], isDrawing = True, isFinished = False, isClosed = True,
      snapToPoints = True, customTileUrl = [], contractorCommitment = 100,
      dailyProgress = [],
      newProgressMeters = [], newProgressNotes = []\<rparr> \<and>
   undoButton \<lparr>points = [\<lparr>lat = 0, lng = 0\<rparr>, \<lparr>lat = 3, lng = 0\<rparr>], isDrawing = False, isFinished = True, isClosed = True,
      snapToPoints = True, customTileUrl = [], contractorCommitment = 100,
      dailyProgress = [],
      newProgressMeters = [], newProgressNotes = []\<rparr> =
     \<lparr>points = [\<lparr>lat = 0, lng = 0\<rparr>, \<lparr>lat = 3, lng = 0\<rparr>], isDrawing = False, isFinished = True, isClosed = True,
      snapToPoints = True, customTileUrl = [], contractorCommitment = 100,
      dailyProgress = [],
      newProgressMeters = [], newProgressNotes = []\<rparr>"
  using handleUndo_removes_last [of "\<lparr>points = [], isDrawing = True, isFinished = False, isClosed = True,
      snapToPoints = True, customTileUrl = [], contractorCommitment = 100,
      dailyProgress = [],
      newProgressMeters = [], newProgressNotes = []\<rparr>"]
    handleUndo_removes_last [of "\<lparr>points = [\<lparr>lat = 0, lng = 0\<rparr>, \<lparr>lat = 3, lng = 0\<rparr>], isDrawing = True, isFinished = False, isClosed = True,
      snapToPoints = True, customTileUrl = [], contractorCommitment = 100,
      dailyProgress = [],
      newProgressMeters = [], newProgressNotes = []\<rparr>"]
    handleUndo_removes_last [of "\<lparr>points = [\<lparr>lat = 0, lng = 0\<rparr>, \<lparr>lat = 3, lng = 0\<rparr>], isDrawing = False, isFinished = True, isClosed = True,
      snapToPoints = True, customTileUrl = [], contractorCommitment = 100,
      dailyProgress = [],
      newProgressMeters = [], newProgressNotes = []\<rparr>"]
  by simp

text \<open>
  C5 as stated makes \<open>undo()\<close> in the finished phase a no-op. \<open>handleUndo\<close> on a finished
  shape of two vertices removes the second vertex and returns to drawing.
\<close>

theorem handleUndo_finished_counterexample:
  "isFinished \<lparr>points = [\<lparr>lat = 0, lng = 0\<rparr>, \<lparr>lat = 3, lng = 0\<rparr>], isDrawing = False, isFinished = True, isClosed = True,
      snapToPoints = True, customTileUrl = [], contractorCommitment = 100,
      dailyProgress = [],
      newProgressMeters = [], newProgressNotes = []\<rparr> \<and>
   handleUndo \<lparr>points = [\<lparr>lat = 0, lng = 0\<rparr>, \<lparr>lat = 3, lng = 0\<rparr>], isDrawing = False, isFinished = True, isClosed = True,
      snapToPoints = True, customTileUrl = [], contractorCommitment = 100,
      dailyProgress = [],
      newProgressMeters = [], newProgressNotes = []\<rparr> =
     \<lparr>points = [\<lparr>lat = 0, lng = 0\<rparr>], isDrawing = True, isFinished = False, isClosed = True,
      snapToPoints = True, customTileUrl = [], contractorCommitment = 100,
      dailyProgress = [],
      newProgressMeters = [], newProgressNotes = []\<rparr>"
  by (simp add: handleUndo_def)

section \<open>Properties of the progress ledger\<close>

text \<open>
  C8. \<open>handleAddProgress\<close> returns at its guard, setting no state variable and so leaving
  the ledger as it was, when the amount read is not a number or is at most 0. For an amount
  above 0 it appends exactly one entry to the end of the ledger, with that amount, status
  pending and the current time as date; the entries already there keep their places and
  values.
\<close>

theorem handleAddProgress_guard_and_append:
  "(parseFloat (newProgressMeters st) = None \<or>
      (\<exists>m. parseFloat (newProgressMeters st) = Some m \<and> m \<le> 0) \<longrightarrow>
      handleAddProgress parseFloat uuid now st = None \<and>
      afterAddProgress parseFloat uuid now st = st) \<and>
   (\<forall>m. parseFloat (newProgressMeters st) = Some m \<and> 0 < m \<longrightarrow>
      handleAddProgress parseFloat uuid now st = Some (afterAddProgress parseFloat uuid now st) \<and>
      dailyProgress (afterAddProgress parseFloat uuid now st) =
        dailyProgress st @
          [\<lparr>entry_id = uuid, date = now, metersCompleted = m, status = pending,
            entry_notes = Some (newProgressNotes st), entry_customTileUrl = None\<rparr>] \<and>
      length (dailyProgress (afterAddProgress parseFloat uuid now st)) = length (dailyProgress st) + 1 \<and>
      take (length (dailyProgress st)) (dailyProgress (afterAddProgress parseFloat uuid now st)) =
        dailyProgress st \<and>
      status (last (dailyProgress (afterAddProgress parseFloat uuid now st))) = pending \<and>
      date (last (dailyProgress (afterAddProgress parseFloat uuid now st))) = now)"
  by (auto simp: handleAddProgress_def afterAddProgress_def Let_def)

theorem handleAddProgress_guard_and_append_witness:
  "handleAddProgress (\<lambda>s. if s = ''120'' then Some 120 else if s = ''-5'' then Some (- 5) else None) ''u7'' 99
     \<lparr>points = [], isDrawing = True, isFinished = False, isClosed = True,
      snapToPoints = True, customTileUrl = [], contractorCommitment = 100,
      dailyProgress = [\<lparr>entry_id = ''e2'', date = 1, metersCompleted = 40, status = approved, entry_notes = None, entry_customTileUrl = None\<rparr>],
      newProgressMeters = ''-5'', newProgressNotes = []\<rparr> = None \<and>
   handleAddProgress (\<lambda>s. if s = ''120'' then Some 120 else if s = ''-5'' then Some (- 5) else None) ''u7'' 99
     \<lparr>points = [], isDrawing = True, isFinished = False, isClosed = True,
      snapToPoints = True, customTileUrl = [], contractorCommitment = 100,
      dailyProgress = [\<lparr>entry_id = ''e2'', date = 1, metersCompleted = 40, status = approved, entry_notes = None, entry_customTileUrl = None\<rparr>],
      newProgressMeters = ''abc'', newProgressNotes = []\<rparr> = None \<and>
   dailyProgress (afterAddProgress (\<lambda>s. if s = ''120'' then Some 120 else if s = ''-5'' then Some (- 5) else None) ''u7'' 99
     \<lparr>points = [], isDrawing = True, isFinished = False, isClosed = True,
      snapToPoints = True, customTileUrl = [], contractorCommitment = 100,
      dailyProgress = [\<lparr>entry_id = ''e2'', date = 1, metersCompleted = 40, status = approved, entry_notes = None, entry_customTileUrl = None\<rparr>],
      newProgressMeters = ''120'', newProgressNotes = []\<rparr>) =
     [\<lparr>entry_id = ''e2'', date = 1, metersCompleted = 40, status = approved, entry_notes = None, entry_customTileUrl = None\<rparr>,
      \<lparr>entry_id = ''u7'', date = 99, metersCompleted = 120, status = pending, entry_notes = Some [], entry_customTileUrl = None\<rparr>]"
  using handleAddProgress_guard_and_append [of "(\<lambda>s. if s = ''120'' then Some 120 else if s = ''-5'' then Some (- 5) else None)" "\<lparr>points = [], isDrawing = True, isFinished = False, isClosed = True,
      snapToPoints = True, customTileUrl = [], contractorCommitment = 100,
      dailyProgress = [\<lparr>entry_id = ''e2'', date = 1, metersCompleted = 40, status = approved, entry_notes = None, entry_customTileUrl = None\<rparr>],
      newProgressMeters = ''-5'', newProgressNotes = []\<rparr>" "''u7''" 99]
    handleAddProgress_guard_and_append [of "(\<lambda>s. if s = ''120'' then Some 120 else if s = ''-5'' then Some (- 5) else None)" "\<lparr>points = [], isDrawing = True, isFinished = False, isClosed = True,
      snapToPoints = True, customTileUrl = [], contractorCommitment = 100,
      dailyProgress = [\<lparr>entry_id = ''e2'', date = 1, metersCompleted = 40, status = approved, entry_notes = None, entry_customTileUrl = None\<rparr>],
      newProgressMeters = ''abc'', newProgressNotes = []\<rparr>" "''u7''" 99]
    handleAddProgress_guard_and_append [of "(\<lambda>s. if s = ''120'' then Some 120 else if s = ''-5'' then Some (- 5) else None)" "\<lparr>points = [], isDrawing = True, isFinished = False, isClosed = True,
      snapToPoints = True, customTileUrl = [], contractorCommitment = 100,
      dailyProgress = [\<lparr>entry_id = ''e2'', date = 1, metersCompleted = 40, status = approved, entry_notes = None, entry_customTileUrl = None\<rparr>],
      newProgressMeters = ''120'', newProgressNotes = []\<rparr>" "''u7''" 99]
  by simp

text \<open>
An entry rewritten by the status update is not pending unless the new status is.
\<close>

lemma updated_entries_not_pending:
  "s \<noteq> pending \<Longrightarrow> p \<in> set (map (\<lambda>p. if entry_id p = i then p\<lparr>status := s\<rparr> else p) xs) \<Longrightarrow>
     entry_id p = i \<Longrightarrow> status p \<noteq> pending"
proof -
  assume s: "s \<noteq> pending" and p: "p \<in> set (map (\<lambda>p. if entry_id p = i then p\<lparr>status := s\<rparr> else p) xs)"
    and i: "entry_id p = i"
  from p obtain q where q: "q \<in> set xs" "p = (if entry_id q = i then q\<lparr>status := s\<rparr> else q)"
    by (auto simp only: set_map image_iff)
  show ?thesis
  proof (cases "entry_id q = i")
    case True
    with q s show ?thesis by simp
  next
    case False
    with q i show ?thesis by simp
  qed
qed

text \<open>
  C1, as the code has it. \<open>handleUpdateProgressStatus\<close> always returns a ledger of the same
  length: every entry whose id is the given one gets the new status, whatever its status
  was, with its other fields kept; every other entry is kept as it is; with no entry of
  that id the state is unchanged; nothing but the ledger changes. After an update to
  approved or rejected, the Approve and Reject buttons, which the panel renders for pending
  entries only, are hidden for the entries of that id.
\<close>

theorem handleUpdateProgressStatus_overwrites:
  "length (dailyProgress (handleUpdateProgressStatus i s st)) = length (dailyProgress st) \<and>
   (\<forall>k<length (dailyProgress st).
      (entry_id (dailyProgress st ! k) = i \<longrightarrow>
         dailyProgress (handleUpdateProgressStatus i s st) ! k = (dailyProgress st ! k)\<lparr>status := s\<rparr>) \<and>
      (entry_id (dailyProgress st ! k) \<noteq> i \<longrightarrow>
         dailyProgress (handleUpdateProgressStatus i s st) ! k = dailyProgress st ! k)) \<and>
   (i \<notin> entry_id ` set (dailyProgress st) \<longrightarrow> handleUpdateProgressStatus i s st = st) \<and>
   (handleUpdateProgressStatus i s st)\<lparr>dailyProgress := dailyProgress st\<rparr> = st \<and>
   (s \<noteq> pending \<longrightarrow>
      (\<forall>p\<in>set (dailyProgress (handleUpdateProgressStatus i s st)).
         entry_id p = i \<longrightarrow> \<not> reviewButtonsShown p))"
proof -
  let ?f = "\<lambda>p. if entry_id p = i then p\<lparr>status := s\<rparr> else p"
  have ledger: "dailyProgress (handleUpdateProgressStatus i s st) = map ?f (dailyProgress st)"
    by (simp add: handleUpdateProgressStatus_def)
  have same: "map ?f xs = xs" if "i \<notin> entry_id ` set xs" for xs
    using that by (induction xs) auto
  have len: "length (dailyProgress (handleUpdateProgressStatus i s st)) = length (dailyProgress st)"
    by (simp add: ledger)
  have each: "\<forall>k<length (dailyProgress st).
      (entry_id (dailyProgress st ! k) = i \<longrightarrow>
         dailyProgress (handleUpdateProgressStatus i s st) ! k = (dailyProgress st ! k)\<lparr>status := s\<rparr>) \<and>
      (entry_id (dailyProgress st ! k) \<noteq> i \<longrightarrow>
         dailyProgress (handleUpdateProgressStatus i s st) ! k = dailyProgress st ! k)"
    by (simp add: ledger)
  have absent: "i \<notin> entry_id ` set (dailyProgress st) \<longrightarrow> handleUpdateProgressStatus i s st = st"
    by (simp add: handleUpdateProgressStatus_def same)
  have frame: "(handleUpdateProgressStatus i s st)\<lparr>dailyProgress := dailyProgress st\<rparr> = st"
    by (simp add: handleUpdateProgressStatus_def)
  have hidden: "s \<noteq> pending \<longrightarrow>
      (\<forall>p\<in>set (dailyProgress (handleUpdateProgressStatus i s st)).
         entry_id p = i \<longrightarrow> \<not> reviewButtonsShown p)"
    using updated_entries_not_pending [of s _ i "dailyProgress st"]
    by (simp only: ledger reviewButtonsShown_def) blast
  show ?thesis
    by (rule conjI [OF len conjI [OF each conjI [OF absent conjI [OF frame hidden]]]])
qed

theorem handleUpdateProgressStatus_overwrites_witness:
  "dailyProgress (handleUpdateProgressStatus ''e1'' approved
     \<lparr>points = [], isDrawing = True, isFinished = False, isClosed = True,
      snapToPoints = True, customTileUrl = [], contractorCommitment = 100,
      dailyProgress = [\<lparr>entry_id = ''e1'', date = 1, metersCompleted = 100, status = pending, entry_notes = None, entry_customTileUrl = None\<rparr>,
         \<lparr>entry_id = ''e2'', date = 1, metersCompleted = 40, status = approved, entry_notes = None, entry_customTileUrl = None\<rparr>],
      newProgressMeters = [], newProgressNotes = []\<rparr>) =
     [\<lparr>entry_id = ''e1'', date = 1, metersCompleted = 100, status = approved, entry_notes = None, entry_customTileUrl = None\<rparr>,
      \<lparr>entry_id = ''e2'', date = 1, metersCompleted = 40, status = approved, entry_notes = None, entry_customTileUrl = None\<rparr>] \<and>
   \<not> reviewButtonsShown \<lparr>entry_id = ''e1'', date = 1, metersCompleted = 100, status = approved, entry_notes = None, entry_customTileUrl = None\<rparr> \<and>
   handleUpdateProgressStatus ''zz'' approved
     \<lparr>points = [], isDrawing = True, isFinished = False, isClosed = True,
      snapToPoints = True, customTileUrl = [], contractorCommitment = 100,
      dailyProgress = [\<lparr>entry_id = ''e1'', date = 1, metersCompleted = 100, status = pending, entry_notes = None, entry_customTileUrl = None\<rparr>,
         \<lparr>entry_id = ''e2'', date = 1, metersCompleted = 40, status = approved, entry_notes = None, entry_customTileUrl = None\<rparr>],
      newProgressMeters = [], newProgressNotes = []\<rparr> =
     \<lparr>points = [], isDrawing = True, isFinished = False, isClosed = True,
      snapToPoints = True, customTileUrl = [], contractorCommitment = 100,
      dailyProgress = [\<lparr>entry_id = ''e1'', date = 1, metersCompleted = 100, status = pending, entry_notes = None, entry_customTileUrl = None\<rparr>,
         \<lparr>entry_id = ''e2'', date = 1, metersCompleted = 40, status = approved, entry_notes = None, entry_customTileUrl = None\<rparr>],
      newProgressMeters = [], newProgressNotes = []\<rparr>"
  using handleUpdateProgressStatus_overwrites [of "''e1''" approved "\<lparr>points = [], isDrawing = True, isFinished = False, isClosed = True,
      snapToPoints = True, customTileUrl = [], contractorCommitment = 100,
      dailyProgress = [\<lparr>entry_id = ''e1'', date = 1, metersCompleted = 100, status = pending, entry_notes = None, entry_customTileUrl = None\<rparr>,
         \<lparr>entry_id = ''e2'', date = 1, metersCompleted = 40, status = approved, entry_notes = None, entry_customTileUrl = None\<rparr>],
      newProgressMeters = [], newProgressNotes = []\<rparr>"]
    handleUpdateProgressStatus_overwrites [of "''zz''" approved "\<lparr>points = [], isDrawing = True, isFinished = False, isClosed = True,
      snapToPoints = True, customTileUrl = [], contractorCommitment = 100,
      dailyProgress = [\<lparr>entry_id = ''e1'', date = 1, metersCompleted = 100, status = pending, entry_notes = None, entry_customTileUrl = None\<rparr>,
         \<lparr>entry_id = ''e2'', date = 1, metersCompleted = 40, status = approved, entry_notes = None, entry_customTileUrl = None\<rparr>],
      newProgressMeters = [], newProgressNotes = []\<rparr>"]
  by (simp add: handleUpdateProgressStatus_def reviewButtonsShown_def)

text \<open>
  C1 as stated lets no approved entry become rejected and reports an unknown id. The
  handler turns the approved entry \<open>e2\<close> into a rejected one, and for the unknown id \<open>zz\<close> it
  returns the state as it was, with no report.
\<close>

theorem handleUpdateProgressStatus_rereview_counterexample:
  "status (\<lparr>entry_id = ''e2'', date = 1, metersCompleted = 40, status = approved, entry_notes = None, entry_customTileUrl = None\<rparr>) = approved \<and>
   dailyProgress (handleUpdateProgressStatus ''e2'' rejected
     \<lparr>points = [], isDrawing = True, isFinished = False, isClosed = True,
      snapToPoints = True, customTileUrl = [], contractorCommitment = 100,
      dailyProgress = [\<lparr>entry_id = ''e1'', date = 1, metersCompleted = 100, status = pending, entry_notes = None, entry_customTileUrl = None\<rparr>,
         \<lparr>entry_id = ''e2'', date = 1, metersCompleted = 40, status = approved, entry_notes = None, entry_customTileUrl = None\<rparr>],
      newProgressMeters = [], newProgressNotes = []\<rparr>) =
     [\<lparr>entry_id = ''e1'', date = 1, metersCompleted = 100, status = pending, entry_notes = None, entry_customTileUrl = None\<rparr>,
      \<lparr>entry_id = ''e2'', date = 1, metersCompleted = 40, status = rejected, entry_notes = None, entry_customTileUrl = None\<rparr>] \<and>
   handleUpdateProgressStatus ''zz'' approved
     \<lparr>points = [], isDrawing = True, isFinished = False, isClosed = True,
      snapToPoints = True, customTileUrl = [], contractorCommitment = 100,
      dailyProgress = [\<lparr>entry_id = ''e1'', date = 1, metersCompleted = 100, status = pending, entry_notes = None, entry_customTileUrl = None\<rparr>,
         \<lparr>entry_id = ''e2'', date = 1, metersCompleted = 40, status = approved, entry_notes = None, entry_customTileUrl = None\<rparr>],
      newProgressMeters = [], newProgressNotes = []\<rparr> =
     \<lparr>points = [], isDrawing = True, isFinished = False, isClosed = True,
      snapToPoints = True, customTileUrl = [], contractorCommitment = 100,
      dailyProgress = [\<lparr>entry_id = ''e1'', date = 1, metersCompleted = 100, status = pending, entry_notes = None, entry_customTileUrl = None\<rparr>,
         \<lparr>entry_id = ''e2'', date = 1, metersCompleted = 40, status = approved, entry_notes = None, entry_customTileUrl = None\<rparr>],
      newProgressMeters = [], newProgressNotes = []\<rparr>"
  by (simp add: handleUpdateProgressStatus_def)

end
